theory Spec2Isabelle
  imports Complex_Main "HOL-Library.AList"
begin

section \<open>ACE Arena: the game server of \<^verbatim>\<open>server.js\<close>\<close>

text \<open>
  The server keeps four tables (\<^verbatim>\<open>games\<close>, \<^verbatim>\<open>players\<close>, \<^verbatim>\<open>queues\<close>,
  \<^verbatim>\<open>leaderboard\<close>) and reacts to socket events. Each handler is modelled as a function
  from the tables (and the payload of the event) to the new tables and the list of
  messages it emits, in the order of the source. The three calls of \<^verbatim>\<open>Math.random\<close>
  (\<^verbatim>\<open>generateId\<close>, \<^verbatim>\<open>rollDice\<close>, \<^verbatim>\<open>getAIMove\<close>) take the drawn value as an argument.
\<close>

subsection \<open>Values that arrive in a message\<close>

text \<open>
  A payload field is a JSON primitive. Numbers are restricted to the integers; arrays and
  objects are not modelled. On these values \<^verbatim>\<open>===\<close> is equality.
\<close>

datatype jsval = JUndefined | JNull | JBool bool | JNum int | JStr string

text \<open>What \<^verbatim>\<open>if (v)\<close>, \<^verbatim>\<open>v && w\<close> and \<^verbatim>\<open>v || w\<close> test.\<close>

fun truthy :: "jsval \<Rightarrow> bool" where
  "truthy JUndefined = False"
| "truthy JNull = False"
| "truthy (JBool b) = b"
| "truthy (JNum n) = (n \<noteq> 0)"
| "truthy (JStr s) = (s \<noteq> [])"

subsection \<open>Helper functions\<close>

text \<open>
  \<^verbatim>\<open>const rollDice = () => Math.floor(Math.random() * 6) + 1;\<close>
  The argument is the value of \<^verbatim>\<open>Math.random()\<close>, a number in \<open>[0, 1)\<close>.
\<close>

definition rollDice :: "real \<Rightarrow> int" where
  "rollDice u = \<lfloor>u * 6\<rfloor> + 1"

text \<open>
  \<^verbatim>\<open>const getAIMove = () => ['rock', 'paper', 'scissors'][Math.floor(Math.random() * 3)];\<close>
  An index outside the array reads \<^verbatim>\<open>undefined\<close>.
\<close>

definition getAIMove :: "real \<Rightarrow> jsval" where
  "getAIMove u =
     (let i = \<lfloor>u * 3\<rfloor>; arr = [JStr ''rock'', JStr ''paper'', JStr ''scissors'']
      in if 0 \<le> i \<and> i < int (length arr) then arr ! nat i else JUndefined)"

text \<open>
  The names every object literal inherits from \<^verbatim>\<open>Object.prototype\<close>. Reading one of
  them from the table \<^verbatim>\<open>wins\<close> yields a built-in object, which is not \<^verbatim>\<open>undefined\<close> and is
  not equal to any value of a message.
\<close>

definition object_prototype_keys :: "string list" where
  "object_prototype_keys =
     [''constructor'', ''__defineGetter__'', ''__defineSetter__'', ''hasOwnProperty'',
      ''__lookupGetter__'', ''__lookupSetter__'', ''isPrototypeOf'', ''propertyIsEnumerable'',
      ''toString'', ''valueOf'', ''__proto__'', ''toLocaleString'']"

text \<open>
  \<^verbatim>\<open>const wins = { rock: 'scissors', paper: 'rock', scissors: 'paper' };\<close> and the read
  \<^verbatim>\<open>wins[p1]\<close>: \<open>Some v\<close> is the value \<open>v\<close> (\<^verbatim>\<open>undefined\<close> for a missing key), \<open>None\<close> is
  an inherited built-in. A key that is not a string is converted to one (\<^verbatim>\<open>"null"\<close>,
  \<^verbatim>\<open>"undefined"\<close>, \<^verbatim>\<open>"true"\<close>, \<^verbatim>\<open>"false"\<close> or a numeral), which names no property.
\<close>

fun rps_wins :: "jsval \<Rightarrow> jsval option" where
  "rps_wins (JStr s) =
     (if s = ''rock'' then Some (JStr ''scissors'')
      else if s = ''paper'' then Some (JStr ''rock'')
      else if s = ''scissors'' then Some (JStr ''paper'')
      else if s \<in> set object_prototype_keys then None
      else Some JUndefined)"
| "rps_wins v = Some JUndefined"

text \<open>
  \<^verbatim>\<open>
  const getRPSResult = (p1, p2) => {
    if (p1 === p2) return 'tie';
    const wins = { rock: 'scissors', paper: 'rock', scissors: 'paper' };
    return wins[p1] === p2 ? 'p1' : 'p2';
  };
  \<close>
\<close>

definition getRPSResult :: "jsval \<Rightarrow> jsval \<Rightarrow> string" where
  "getRPSResult p1 p2 =
     (if p1 = p2 then ''tie''
      else if rps_wins p1 = Some p2 then ''p1'' else ''p2'')"

subsection \<open>The tables\<close>

text \<open>One side of a game. \<^verbatim>\<open>player1\<close> has no field \<^verbatim>\<open>isAI\<close>: it reads as false.\<close>

record side =
  odId :: string
  name :: jsval
  score :: int
  move :: jsval
  isAI :: bool

datatype status = Playing | Ended

text \<open>A game; \<^verbatim>\<open>createdAt\<close> is never read and is left out.\<close>

record game =
  game_id :: string
  game_type :: string
  player1 :: side
  player2 :: side
  game_status :: status
  game_round :: int

record playerInfo =
  player_odId :: string
  player_name :: jsval
  currentGame :: "string option"

record entry =
  entry_odId :: string
  entry_name :: jsval
  wins :: int
  losses :: int
  entry_score :: int

record queue_table =
  dice :: "string list"
  rps :: "string list"

text \<open>
  The leaderboard is a \<^verbatim>\<open>Map\<close> whose insertion order \<^verbatim>\<open>getTopPlayers\<close> reads, so it
  is a list of pairs; the other two maps are read by key only.
\<close>

record state =
  games :: "string \<rightharpoonup> game"
  players :: "string \<rightharpoonup> playerInfo"
  queues :: queue_table
  leaderboard :: "(string \<times> entry) list"

definition init_state :: state where
  "init_state = \<lparr>games = Map.empty, players = Map.empty,
                  queues = \<lparr>dice = [], rps = []\<rparr>, leaderboard = []\<rparr>"

subsection \<open>Leaderboard\<close>

text \<open>
  \<^verbatim>\<open>
  function updateLeaderboard(odId, won) {
    const entry = leaderboard.get(odId);
    if (entry) {
      if (won) { entry.wins++; entry.score += 10; } else { entry.losses++; }
    }
  }
  \<close>
\<close>

definition updateLeaderboard ::
  "(string \<times> entry) list \<Rightarrow> string \<Rightarrow> bool \<Rightarrow> (string \<times> entry) list" where
  "updateLeaderboard lb i won =
     (case map_of lb i of
        None \<Rightarrow> lb
      | Some e \<Rightarrow>
          if won then AList.update i (e\<lparr>wins := wins e + 1, entry_score := entry_score e + 10\<rparr>) lb
          else AList.update i (e\<lparr>losses := losses e + 1\<rparr>) lb)"

text \<open>
  \<^verbatim>\<open>Array.from(leaderboard.values()).sort((a, b) => b.score - a.score).slice(0, limit)\<close>;
  the sort is stable.
\<close>

definition getTopPlayers :: "(string \<times> entry) list \<Rightarrow> nat \<Rightarrow> entry list" where
  "getTopPlayers lb limit = take limit (sort_key (\<lambda>e. - entry_score e) (map snd lb))"

subsection \<open>Resolving a round\<close>

datatype outcome = Win | Lose | Tie

text \<open>What \<^verbatim>\<open>processRound\<close> returns; a result that was never assigned is \<open>None\<close>.\<close>

record round_outcome =
  p1Move :: jsval
  p2Move :: jsval
  p1Result :: "outcome option"
  p2Result :: "outcome option"
  isPlayer1 :: bool

text \<open>
  \<^verbatim>\<open>processRound(game)\<close> mutates the game and the leaderboard; the model returns both.
  The pair of reals holds the two values \<^verbatim>\<open>Math.random()\<close> gives to the two calls of
  \<^verbatim>\<open>rollDice\<close>. A game type that is neither \<^verbatim>\<open>'dice'\<close> nor \<^verbatim>\<open>'rps'\<close> assigns nothing.
\<close>

definition processRound ::
  "game \<Rightarrow> (string \<times> entry) list \<Rightarrow> real \<times> real
     \<Rightarrow> game \<times> (string \<times> entry) list \<times> round_outcome" where
  "processRound g lb rnd =
     (let m1 = move (player1 g); m2 = move (player2 g);
          (g1, r1, r2, d1, d2) =
            (if game_type g = ''dice'' then
               (let p1Roll = rollDice (fst rnd); p2Roll = rollDice (snd rnd) in
                if p1Roll > p2Roll then
                  (g\<lparr>player1 := (player1 g)\<lparr>score := score (player1 g) + 10\<rparr>\<rparr>,
                   Some Win, Some Lose, JNum p1Roll, JNum p2Roll)
                else if p1Roll < p2Roll then
                  (g\<lparr>player2 := (player2 g)\<lparr>score := score (player2 g) + 10\<rparr>\<rparr>,
                   Some Lose, Some Win, JNum p1Roll, JNum p2Roll)
                else (g, Some Tie, Some Tie, JNum p1Roll, JNum p2Roll))
             else if game_type g = ''rps'' then
               (let res = getRPSResult m1 m2 in
                if res = ''p1'' then
                  (g\<lparr>player1 := (player1 g)\<lparr>score := score (player1 g) + 15\<rparr>\<rparr>,
                   Some Win, Some Lose, m1, m2)
                else if res = ''p2'' then
                  (g\<lparr>player2 := (player2 g)\<lparr>score := score (player2 g) + 15\<rparr>\<rparr>,
                   Some Lose, Some Win, m1, m2)
                else (g, Some Tie, Some Tie, m1, m2))
             else (g, None, None, JUndefined, JUndefined));
          g2 = g1\<lparr>game_round := game_round g1 + 1\<rparr>;
          lb2 = (if \<not> isAI (player2 g2) \<and> r1 \<noteq> Some Tie then
                   updateLeaderboard
                     (updateLeaderboard lb (odId (player1 g2)) (r1 = Some Win))
                     (odId (player2 g2)) (r2 = Some Win)
                 else lb)
      in (g2, lb2,
          \<lparr>p1Move = d1, p2Move = d2, p1Result = r1, p2Result = r2, isPlayer1 = True\<rparr>))"

text \<open>The three canonical moves of rock-paper-scissors.\<close>

definition rps_moves :: "jsval list" where
  "rps_moves = [JStr ''rock'', JStr ''paper'', JStr ''scissors'']"

subsection \<open>Messages to the clients\<close>

text \<open>The payload of \<^verbatim>\<open>round_result\<close>.\<close>

record round_result =
  rr_round :: int
  yourMove :: jsval
  opponentMove :: jsval
  rr_result :: "outcome option"
  scores_you :: int
  scores_opponent :: int

text \<open>
  One constructor per emitted event, with the fields of its payload: \<^verbatim>\<open>registered\<close>
  (playerId, name, leaderboard), \<^verbatim>\<open>error\<close> (message), \<^verbatim>\<open>queued\<close> (gameType, position),
  \<^verbatim>\<open>game_start\<close> (gameId, gameType, you.name, opponent.name, opponent.isAI; both scores
  are the literal 0), \<^verbatim>\<open>left_queue\<close>, \<^verbatim>\<open>round_result\<close>, \<^verbatim>\<open>waiting\<close>, \<^verbatim>\<open>opponent_moved\<close>,
  \<^verbatim>\<open>opponent_left\<close> (message), \<^verbatim>\<open>left_game\<close>, \<^verbatim>\<open>leaderboard\<close>.
\<close>

datatype event =
    Registered string jsval "entry list"
  | ErrorMessage string
  | Queued string nat
  | GameStart string string jsval jsval bool
  | LeftQueue string
  | RoundResult round_result
  | Waiting
  | OpponentMoved
  | OpponentLeft string
  | LeftGame
  | LeaderboardSnapshot "entry list"

text \<open>
  An emitted message with the connection id it is addressed to: \<^verbatim>\<open>socket.emit\<close> addresses
  the caller, \<^verbatim>\<open>io.to(id).emit\<close> the room every socket joins under its own id. The rooms
  named by a game id are joined and left but never addressed; they are left out.
\<close>

type_synonym emits = "(string \<times> event) list"

text \<open>An exception that leaves a handler.\<close>

datatype error = TypeError

subsection \<open>Creating a game\<close>

text \<open>
  \<^verbatim>\<open>createGame(type, player1, player2, isAI = false)\<close>; the first argument of the model
  is the table \<^verbatim>\<open>games\<close>, the second the string \<^verbatim>\<open>generateId()\<close> returns. Of the two
  player objects only \<^verbatim>\<open>odId\<close> and \<^verbatim>\<open>name\<close> are read.
\<close>

definition createGame ::
  "(string \<rightharpoonup> game) \<Rightarrow> string \<Rightarrow> string \<Rightarrow> string \<times> jsval \<Rightarrow> string \<times> jsval \<Rightarrow> bool
     \<Rightarrow> (string \<rightharpoonup> game) \<times> game" where
  "createGame gs gid ty p1 p2 ai =
     (let g = \<lparr>game_id = gid, game_type = ty,
               player1 = \<lparr>odId = fst p1, name = snd p1, score = 0, move = JNull, isAI = False\<rparr>,
               player2 = \<lparr>odId = fst p2, name = snd p2, score = 0, move = JNull, isAI = ai\<rparr>,
               game_status = Playing, game_round = 1\<rparr>
      in (gs(gid \<mapsto> g), g))"

subsection \<open>The handlers\<close>

text \<open>
  \<^verbatim>\<open>socket.on('register', (data) => ...)\<close> with \<open>nm\<close> the field \<^verbatim>\<open>data.name\<close>.
\<close>

definition on_register :: "state \<Rightarrow> string \<Rightarrow> jsval \<Rightarrow> state \<times> emits" where
  "on_register st sid nm =
     (let player = \<lparr>player_odId = sid,
                    player_name = (if truthy nm then nm else JStr (''Player_'' @ take 4 sid)),
                    currentGame = None\<rparr>;
          st1 = st\<lparr>players := (players st)(sid \<mapsto> player)\<rparr>;
          st2 = (if map_of (leaderboard st1) sid = None then
                   st1\<lparr>leaderboard := leaderboard st1 @
                         [(sid, \<lparr>entry_odId = sid, entry_name = player_name player,
                                  wins = 0, losses = 0, entry_score = 0\<rparr>)]\<rparr>
                 else st1)
      in (st2, [(sid, Registered sid (player_name player) (getTopPlayers (leaderboard st2) 10))]))"

text \<open>
  The read \<^verbatim>\<open>queues[gameType]\<close>: the object has the two keys \<^verbatim>\<open>dice\<close> and \<^verbatim>\<open>rps\<close>. For any
  other key the read is \<^verbatim>\<open>undefined\<close> or an inherited built-in, and the handlers below
  throw a \<^verbatim>\<open>TypeError\<close> on it (\<open>None\<close>).
\<close>

definition queue_of :: "queue_table \<Rightarrow> string \<Rightarrow> string list option" where
  "queue_of q t =
     (if t = ''dice'' then Some (dice q) else if t = ''rps'' then Some (rps q) else None)"

definition set_queue :: "queue_table \<Rightarrow> string \<Rightarrow> string list \<Rightarrow> queue_table" where
  "set_queue q t xs =
     (if t = ''dice'' then q\<lparr>dice := xs\<rparr> else if t = ''rps'' then q\<lparr>rps := xs\<rparr> else q)"

text \<open>
  \<^verbatim>\<open>socket.on('join_queue', (data) => ...)\<close> with \<^verbatim>\<open>data.gameType\<close> a string and \<open>gid\<close>
  the id \<^verbatim>\<open>generateId()\<close> gives if a game is created. For a game type without a queue,
  \<^verbatim>\<open>queues[gameType]?.includes(socket.id)\<close> is skipped (or calls the missing \<^verbatim>\<open>includes\<close> of
  a built-in) and \<^verbatim>\<open>queues[gameType].push(socket.id)\<close> throws.
\<close>

definition on_join_queue ::
  "state \<Rightarrow> string \<Rightarrow> string \<Rightarrow> string \<Rightarrow> error + state \<times> emits" where
  "on_join_queue st sid gameType gid =
     (case players st sid of
        None \<Rightarrow> Inr (st, [])
      | Some player \<Rightarrow>
          (case queue_of (queues st) gameType of
             None \<Rightarrow> Inl TypeError
           | Some q \<Rightarrow>
               if sid \<in> set q then Inr (st, [(sid, ErrorMessage ''Already in queue'')])
               else
                 (let q1 = q @ [sid];
                      out1 = [(sid, Queued gameType (length q1))]
                  in case q1 of
                       p1Id # p2Id # rest \<Rightarrow>
                         (let st1 = st\<lparr>queues := set_queue (queues st) gameType rest\<rparr>
                          in case (players st1 p1Id, players st1 p2Id) of
                               (Some p1, Some p2) \<Rightarrow>
                                 (let (gs, g) = createGame (games st1) gid gameType
                                        (player_odId p1, player_name p1)
                                        (player_odId p2, player_name p2) False;
                                      ps = (players st1)
                                        (p1Id \<mapsto> p1\<lparr>currentGame := Some (game_id g)\<rparr>,
                                         p2Id \<mapsto> p2\<lparr>currentGame := Some (game_id g)\<rparr>)
                                  in Inr (st1\<lparr>games := gs, players := ps\<rparr>,
                                          out1 @
                                          [(p1Id, GameStart (game_id g) gameType
                                                    (player_name p1) (player_name p2) False),
                                           (p2Id, GameStart (game_id g) gameType
                                                    (player_name p2) (player_name p1) False)]))
                             | _ \<Rightarrow> Inr (st1, out1))
                     | _ \<Rightarrow> Inr (st\<lparr>queues := set_queue (queues st) gameType q1\<rparr>, out1))))"

text \<open>\<^verbatim>\<open>socket.on('leave_queue', (data) => ...)\<close>.\<close>

definition on_leave_queue :: "state \<Rightarrow> string \<Rightarrow> string \<Rightarrow> error + state \<times> emits" where
  "on_leave_queue st sid gameType =
     (case queue_of (queues st) gameType of
        None \<Rightarrow> Inl TypeError
      | Some q \<Rightarrow>
          Inr (st\<lparr>queues := set_queue (queues st) gameType (filter (\<lambda>i. i \<noteq> sid) q)\<rparr>,
               [(sid, LeftQueue gameType)]))"

text \<open>\<^verbatim>\<open>socket.on('play_ai', (data) => ...)\<close>; the game type is not checked.\<close>

definition on_play_ai :: "state \<Rightarrow> string \<Rightarrow> string \<Rightarrow> string \<Rightarrow> state \<times> emits" where
  "on_play_ai st sid gameType gid =
     (case players st sid of
        None \<Rightarrow> (st, [])
      | Some player \<Rightarrow>
          (let (gs, g) = createGame (games st) gid gameType
                 (player_odId player, player_name player) (''AI'', JStr ''AI Opponent'') True;
               ps = (players st)(sid \<mapsto> player\<lparr>currentGame := Some (game_id g)\<rparr>)
           in (st\<lparr>games := gs, players := ps\<rparr>,
               [(sid, GameStart (game_id g) gameType (player_name player)
                        (JStr ''AI Opponent'') True)])))"

text \<open>
  The two sides as the \<^verbatim>\<open>move\<close> handler names them, \<^verbatim>\<open>isPlayer1 ? game.player1 : game.player2\<close>
  and the reverse, and the assignments to their \<^verbatim>\<open>move\<close> fields.
\<close>

definition currentPlayer :: "bool \<Rightarrow> game \<Rightarrow> side" where
  "currentPlayer isP1 g = (if isP1 then player1 g else player2 g)"

definition opponent :: "bool \<Rightarrow> game \<Rightarrow> side" where
  "opponent isP1 g = (if isP1 then player2 g else player1 g)"

definition set_currentPlayer_move :: "bool \<Rightarrow> jsval \<Rightarrow> game \<Rightarrow> game" where
  "set_currentPlayer_move isP1 v g =
     (if isP1 then g\<lparr>player1 := (player1 g)\<lparr>move := v\<rparr>\<rparr>
      else g\<lparr>player2 := (player2 g)\<lparr>move := v\<rparr>\<rparr>)"

definition set_opponent_move :: "bool \<Rightarrow> jsval \<Rightarrow> game \<Rightarrow> game" where
  "set_opponent_move isP1 v g =
     (if isP1 then g\<lparr>player2 := (player2 g)\<lparr>move := v\<rparr>\<rparr>
      else g\<lparr>player1 := (player1 g)\<lparr>move := v\<rparr>\<rparr>)"

text \<open>
  The first half of the \<^verbatim>\<open>move\<close> handler, from \<^verbatim>\<open>currentPlayer.move = move\<close> to the end
  of \<^verbatim>\<open>if (opponent.isAI) { ... }\<close>: the caller's move is recorded, and an AI opponent
  moves at once (\<open>u\<close> is the value of \<^verbatim>\<open>Math.random()\<close> for \<^verbatim>\<open>getAIMove\<close>).
\<close>

definition record_moves :: "bool \<Rightarrow> jsval \<Rightarrow> real \<Rightarrow> game \<Rightarrow> game" where
  "record_moves isP1 mv u g =
     (let g1 = set_currentPlayer_move isP1 mv g
      in if isAI (opponent isP1 g1) then
           (if game_type g1 = ''dice'' then set_opponent_move isP1 (JStr ''roll'') g1
            else if game_type g1 = ''rps'' then set_opponent_move isP1 (getAIMove u) g1
            else g1)
         else g1)"

text \<open>
  \<^verbatim>\<open>socket.on('move', (data) => ...)\<close> with \<^verbatim>\<open>data.gameId\<close> a string and \<^verbatim>\<open>data.move\<close> any
  value. The triple holds the values of \<^verbatim>\<open>Math.random()\<close>: the first for \<^verbatim>\<open>getAIMove\<close>, the
  other two for the dice of \<^verbatim>\<open>processRound\<close>.
\<close>

definition on_move ::
  "state \<Rightarrow> string \<Rightarrow> string \<Rightarrow> jsval \<Rightarrow> real \<times> real \<times> real \<Rightarrow> state \<times> emits" where
  "on_move st sid gameId mv rnd =
     (case (games st gameId, players st sid) of
        (Some game0, Some player) \<Rightarrow>
          if game_status game0 \<noteq> Playing then (st, [(sid, ErrorMessage ''Invalid game state'')])
          else
            (let isP1 = (odId (player1 game0) = sid);
                 g2 = record_moves isP1 mv (fst rnd) game0;
                 opp = opponent isP1 g2
             in if truthy (move (currentPlayer isP1 g2)) \<and> truthy (move opp) then
                  (let (g3, lb3, res) = processRound g2 (leaderboard st) (snd rnd);
                       out1 = [(sid, RoundResult
                                 \<lparr>rr_round = game_round g3 - 1,
                                  yourMove = (if isPlayer1 res then p1Move res else p2Move res),
                                  opponentMove = (if isPlayer1 res then p2Move res else p1Move res),
                                  rr_result = (if isPlayer1 res then p1Result res else p2Result res),
                                  scores_you =
                                    (if isP1 then score (player1 g3) else score (player2 g3)),
                                  scores_opponent =
                                    (if isP1 then score (player2 g3) else score (player1 g3))\<rparr>)];
                       out2 = (if \<not> isAI opp then
                                 [(odId opp, RoundResult
                                    \<lparr>rr_round = game_round g3 - 1,
                                     yourMove =
                                       (if \<not> isPlayer1 res then p1Move res else p2Move res),
                                     opponentMove =
                                       (if \<not> isPlayer1 res then p2Move res else p1Move res),
                                     rr_result = (if \<not> isP1 then p1Result res else p2Result res),
                                     scores_you =
                                       (if \<not> isP1 then score (player1 g3) else score (player2 g3)),
                                     scores_opponent =
                                       (if \<not> isP1 then score (player2 g3)
                                        else score (player1 g3))\<rparr>)]
                               else []);
                       g4 = g3\<lparr>player1 := (player1 g3)\<lparr>move := JNull\<rparr>,
                               player2 := (player2 g3)\<lparr>move := JNull\<rparr>\<rparr>
                   in (st\<lparr>games := (games st)(gameId \<mapsto> g4), leaderboard := lb3\<rparr>, out1 @ out2))
                else if \<not> isAI opp then
                  (st\<lparr>games := (games st)(gameId \<mapsto> g2)\<rparr>,
                   [(sid, Waiting), (odId opp, OpponentMoved)])
                else (st\<lparr>games := (games st)(gameId \<mapsto> g2)\<rparr>, []))
      | _ \<Rightarrow> (st, [(sid, ErrorMessage ''Invalid game state'')]))"

text \<open>
  \<^verbatim>\<open>socket.on('leave_game', () => ...)\<close>. The test \<^verbatim>\<open>!player.currentGame\<close> holds for
  \<^verbatim>\<open>null\<close> and for the empty string.
\<close>

definition on_leave_game :: "state \<Rightarrow> string \<Rightarrow> state \<times> emits" where
  "on_leave_game st sid =
     (case players st sid of
        None \<Rightarrow> (st, [])
      | Some player \<Rightarrow>
          (case currentGame player of
             None \<Rightarrow> (st, [])
           | Some cg \<Rightarrow>
               if cg = [] then (st, [])
               else
                 (let (st1, out1) =
                        (case games st cg of
                           None \<Rightarrow> (st, [])
                         | Some g \<Rightarrow>
                             (let opp = (if odId (player1 g) = sid then player2 g else player1 g);
                                  (lb1, o1) =
                                    (if \<not> isAI opp then
                                       (updateLeaderboard
                                          (updateLeaderboard (leaderboard st) (odId opp) True)
                                          sid False,
                                        [(odId opp, OpponentLeft ''Opponent left the game'')])
                                     else (leaderboard st, []))
                              in (st\<lparr>games := (games st)(cg \<mapsto> g\<lparr>game_status := Ended\<rparr>),
                                      leaderboard := lb1\<rparr>, o1)))
                  in (st1\<lparr>players := (players st1)(sid \<mapsto> player\<lparr>currentGame := None\<rparr>)\<rparr>,
                      out1 @ [(sid, LeftGame)]))))"

text \<open>\<^verbatim>\<open>socket.on('get_leaderboard', () => ...)\<close>.\<close>

definition on_get_leaderboard :: "state \<Rightarrow> string \<Rightarrow> state \<times> emits" where
  "on_get_leaderboard st sid =
     (st, [(sid, LeaderboardSnapshot (getTopPlayers (leaderboard st) 10))])"

text \<open>\<^verbatim>\<open>socket.on('disconnect', () => ...)\<close>.\<close>

definition on_disconnect :: "state \<Rightarrow> string \<Rightarrow> state \<times> emits" where
  "on_disconnect st sid =
     (case players st sid of
        None \<Rightarrow> (st, [])
      | Some player \<Rightarrow>
          (let st1 = st\<lparr>queues := \<lparr>dice = filter (\<lambda>i. i \<noteq> sid) (dice (queues st)),
                                   rps = filter (\<lambda>i. i \<noteq> sid) (rps (queues st))\<rparr>\<rparr>;
               (st2, out) =
                 (case currentGame player of
                    None \<Rightarrow> (st1, [])
                  | Some cg \<Rightarrow>
                      if cg = [] then (st1, [])
                      else
                        (case games st1 cg of
                           None \<Rightarrow> (st1, [])
                         | Some g \<Rightarrow>
                             if game_status g = Playing then
                               (let opp = (if odId (player1 g) = sid then player2 g
                                           else player1 g)
                                in (st1\<lparr>games := (games st1)(cg \<mapsto> g\<lparr>game_status := Ended\<rparr>)\<rparr>,
                                    if \<not> isAI opp then
                                      [(odId opp, OpponentLeft ''Opponent disconnected'')]
                                    else []))
                             else (st1, [])))
           in (st2\<lparr>players := (players st2)(sid := None)\<rparr>, out)))"

subsection \<open>A session of two players\<close>

text \<open>
  Two connections register, both join the \<^verbatim>\<open>rps\<close> queue and are paired in the game
  \<^verbatim>\<open>g1\<close>; a third connection registers and stays outside the game.
\<close>

definition st_registered :: state where
  "st_registered =
     fst (on_register (fst (on_register init_state ''sockA'' (JStr ''ann'')))
            ''sockB'' (JStr ''bob''))"

text \<open>The tables after a handler that may throw: unchanged (\<open>st\<close>) if it threw.\<close>

definition state_of :: "error + state \<times> emits \<Rightarrow> state \<Rightarrow> state" where
  "state_of r st = (case r of Inr (st', out) \<Rightarrow> st' | Inl e \<Rightarrow> st)"

definition st_queued :: state where
  "st_queued = state_of (on_join_queue st_registered ''sockA'' ''rps'' ''g0'') st_registered"

definition st_playing :: state where
  "st_playing = state_of (on_join_queue st_queued ''sockB'' ''rps'' ''g1'') st_queued"

definition st_three :: state where
  "st_three = fst (on_register st_playing ''sockC'' (JStr ''eve''))"

text \<open>The game \<^verbatim>\<open>g1\<close> as it is created, and with rock pending on side 1 and scissors on side 2.\<close>

definition game_g1 :: game where
  "game_g1 =
     snd (createGame Map.empty ''g1'' ''rps''
            (''sockA'', JStr ''ann'') (''sockB'', JStr ''bob'') False)"

definition rock_vs_scissors :: game where
  "rock_vs_scissors =
     set_currentPlayer_move False (JStr ''scissors'')
       (set_currentPlayer_move True (JStr ''rock'') game_g1)"

text \<open>The session after \<^verbatim>\<open>sockA\<close>, on side 1, has submitted rock.\<close>

definition st_rock_pending :: state where
  "st_rock_pending = fst (on_move st_playing ''sockA'' ''g1'' (JStr ''rock'') (0, 0, 0))"

text \<open>The same two connections paired in the dice game \<^verbatim>\<open>g2\<close>.\<close>

definition st_dice :: state where
  "st_dice =
     (let st1 = state_of (on_join_queue st_registered ''sockA'' ''dice'' ''g0'') st_registered
      in state_of (on_join_queue st1 ''sockB'' ''dice'' ''g2'') st1)"

definition game_g2 :: game where
  "game_g2 =
     snd (createGame Map.empty ''g2'' ''dice''
            (''sockA'', JStr ''ann'') (''sockB'', JStr ''bob'') False)"

subsection \<open>Sequences of moves on one game\<close>

text \<open>
  A sequence of \<^verbatim>\<open>move\<close> events for the game \<open>gid\<close>, handled one after the other: each
  event has the connection that sends it, the move value, and the three values drawn by
  \<^verbatim>\<open>Math.random()\<close> while it is handled (the last two are the dice).
\<close>

fun run_moves ::
  "state \<Rightarrow> string \<Rightarrow> (string \<times> jsval \<times> real \<times> real \<times> real) list \<Rightarrow> state" where
  "run_moves st gid [] = st"
| "run_moves st gid ((sid, mv, rnd) # es) = run_moves (fst (on_move st sid gid mv rnd)) gid es"

text \<open>A handler resolved a round when it emitted a \<^verbatim>\<open>round_result\<close>.\<close>

fun is_round_result :: "event \<Rightarrow> bool" where
  "is_round_result (RoundResult r) = True"
| "is_round_result e = False"

definition round_resolved :: "emits \<Rightarrow> bool" where
  "round_resolved out = list_ex (\<lambda>(to, e). is_round_result e) out"

text \<open>
  The number of rounds resolved along a sequence of moves, and the number of them that
  side 1 (\<open>side1\<close> true) or side 2 won strictly by the dice drawn.
\<close>

fun rounds_resolved ::
  "state \<Rightarrow> string \<Rightarrow> (string \<times> jsval \<times> real \<times> real \<times> real) list \<Rightarrow> int" where
  "rounds_resolved st gid [] = 0"
| "rounds_resolved st gid ((sid, mv, rnd) # es) =
     (if round_resolved (snd (on_move st sid gid mv rnd)) then 1 else 0)
     + rounds_resolved (fst (on_move st sid gid mv rnd)) gid es"

fun rounds_won ::
  "bool \<Rightarrow> state \<Rightarrow> string \<Rightarrow> (string \<times> jsval \<times> real \<times> real \<times> real) list \<Rightarrow> int" where
  "rounds_won side1 st gid [] = 0"
| "rounds_won side1 st gid ((sid, mv, w, u, v) # es) =
     (if round_resolved (snd (on_move st sid gid mv (w, u, v)))
         \<and> (if side1 then rollDice u > rollDice v else rollDice u < rollDice v)
      then 1 else 0)
     + rounds_won side1 (fst (on_move st sid gid mv (w, u, v))) gid es"

subsection \<open>Successive moves of one connection\<close>

text \<open>
  The connection \<open>sid\<close> sends one \<^verbatim>\<open>move\<close> event after the other for the game \<open>gid\<close>,
  each with its move value and the values drawn by \<^verbatim>\<open>Math.random()\<close> while it is handled.
\<close>

fun moves_from ::
  "state \<Rightarrow> string \<Rightarrow> string \<Rightarrow> (jsval \<times> real \<times> real \<times> real) list \<Rightarrow> state" where
  "moves_from st sid gid [] = st"
| "moves_from st sid gid ((mv, rnd) # ms) =
     moves_from (fst (on_move st sid gid mv rnd)) sid gid ms"

section \<open>Properties\<close>

subsection \<open>Rock-paper-scissors\<close>

lemma rps_moves_cases:
  "a \<in> set rps_moves \<Longrightarrow> a = JStr ''rock'' \<or> a = JStr ''paper'' \<or> a = JStr ''scissors''"
  by (simp add: rps_moves_def)

lemma rps_table:
  "getRPSResult (JStr ''rock'') (JStr ''rock'') = ''tie''"
  "getRPSResult (JStr ''rock'') (JStr ''paper'') = ''p2''"
  "getRPSResult (JStr ''rock'') (JStr ''scissors'') = ''p1''"
  "getRPSResult (JStr ''paper'') (JStr ''rock'') = ''p1''"
  "getRPSResult (JStr ''paper'') (JStr ''paper'') = ''tie''"
  "getRPSResult (JStr ''paper'') (JStr ''scissors'') = ''p2''"
  "getRPSResult (JStr ''scissors'') (JStr ''rock'') = ''p2''"
  "getRPSResult (JStr ''scissors'') (JStr ''paper'') = ''p1''"
  "getRPSResult (JStr ''scissors'') (JStr ''scissors'') = ''tie''"
  by (simp_all add: getRPSResult_def)

lemma getRPSResult_grid:
  assumes "a \<in> set rps_moves" and "b \<in> set rps_moves"
  shows "(getRPSResult a b = ''tie'') = (a = b)
     \<and> (getRPSResult a b = ''p1'') = (getRPSResult b a = ''p2'')
     \<and> (getRPSResult a b = ''p1'') =
           ((a, b) \<in> {(JStr ''rock'', JStr ''scissors''), (JStr ''scissors'', JStr ''paper''),
                      (JStr ''paper'', JStr ''rock'')})"
  using rps_moves_cases [OF assms(1)] rps_moves_cases [OF assms(2)]
  by (elim disjE; simp add: rps_table)

lemma rps_three_ties:
  "length (filter (\<lambda>(x, y). getRPSResult x y = ''tie'') (List.product rps_moves rps_moves)) = 3"
  by (simp add: rps_moves_def rps_table)

lemma processRound_rps:
  assumes "game_type g = ''rps''"
  shows "processRound g lb rnd =
     (let res = getRPSResult (move (player1 g)) (move (player2 g));
          g1 = (if res = ''p1'' then g\<lparr>player1 := (player1 g)\<lparr>score := score (player1 g) + 15\<rparr>\<rparr>
                else if res = ''p2'' then g\<lparr>player2 := (player2 g)\<lparr>score := score (player2 g) + 15\<rparr>\<rparr>
                else g);
          r1 = (if res = ''p1'' then Win else if res = ''p2'' then Lose else Tie);
          r2 = (if res = ''p1'' then Lose else if res = ''p2'' then Win else Tie)
      in (g1\<lparr>game_round := game_round g + 1\<rparr>,
          (if \<not> isAI (player2 g) \<and> r1 \<noteq> Tie then
             updateLeaderboard (updateLeaderboard lb (odId (player1 g)) (r1 = Win))
               (odId (player2 g)) (r2 = Win)
           else lb),
          \<lparr>p1Move = move (player1 g), p2Move = move (player2 g),
            p1Result = Some r1, p2Result = Some r2, isPlayer1 = True\<rparr>))"
  using assms by (simp add: processRound_def Let_def)


text \<open>
  Claim C8. On the three canonical moves \<^verbatim>\<open>getRPSResult\<close> always answers one of
  \<^verbatim>\<open>'tie'\<close>, \<^verbatim>\<open>'p1'\<close>, \<^verbatim>\<open>'p2'\<close>; it answers \<^verbatim>\<open>'tie'\<close> exactly for two identical moves, so
  three of the nine pairs are ties; side 1 wins a pair exactly when side 2 wins the
  reversed pair, and the winning pairs are rock over scissors, scissors over paper, paper
  over rock. \<^verbatim>\<open>processRound\<close> on such a round of an \<^verbatim>\<open>rps\<close> game adds 15 to the score of the
  winner's side and nothing to the other side, and nothing to either on a tie.
\<close>

theorem rps_resolution_grid:
  assumes "a \<in> set rps_moves" and "b \<in> set rps_moves"
    and "game_type g = ''rps''" and "move (player1 g) = a" and "move (player2 g) = b"
  shows "getRPSResult a b \<in> {''tie'', ''p1'', ''p2''}
       \<and> ((getRPSResult a b = ''tie'') = (a = b)
       \<and> (getRPSResult a b = ''p1'') = (getRPSResult b a = ''p2'')
       \<and> (getRPSResult a b = ''p1'') =
           ((a, b) \<in> {(JStr ''rock'', JStr ''scissors''), (JStr ''scissors'', JStr ''paper''),
                      (JStr ''paper'', JStr ''rock'')}))
       \<and> length (filter (\<lambda>(x, y). getRPSResult x y = ''tie'')
                   (List.product rps_moves rps_moves)) = 3
       \<and> (case processRound g lb rnd of
            (g', lb', res) \<Rightarrow>
              score (player1 g') = score (player1 g) + (if getRPSResult a b = ''p1'' then 15 else 0)
            \<and> score (player2 g') = score (player2 g) + (if getRPSResult a b = ''p2'' then 15 else 0)
            \<and> p1Result res = Some (if getRPSResult a b = ''p1'' then Win
                                     else if getRPSResult a b = ''p2'' then Lose else Tie)
            \<and> p2Result res = Some (if getRPSResult a b = ''p1'' then Lose
                                     else if getRPSResult a b = ''p2'' then Win else Tie))"
proof -
  have codomain: "getRPSResult a b \<in> {''tie'', ''p1'', ''p2''}"
    by (simp add: getRPSResult_def)
  have round: "case processRound g lb rnd of
      (g', lb', res) \<Rightarrow>
        score (player1 g') = score (player1 g) + (if getRPSResult a b = ''p1'' then 15 else 0)
      \<and> score (player2 g') = score (player2 g) + (if getRPSResult a b = ''p2'' then 15 else 0)
      \<and> p1Result res = Some (if getRPSResult a b = ''p1'' then Win
                               else if getRPSResult a b = ''p2'' then Lose else Tie)
      \<and> p2Result res = Some (if getRPSResult a b = ''p1'' then Lose
                               else if getRPSResult a b = ''p2'' then Win else Tie)"
    using assms(4,5) by (simp add: processRound_rps [OF assms(3)] Let_def)
  show ?thesis
    by (intro conjI codomain getRPSResult_grid [OF assms(1,2)] rps_three_ties round)
qed

theorem rps_resolution_grid_witness:
  "getRPSResult (JStr ''rock'') (JStr ''scissors'') = ''p1''
   \<and> getRPSResult (JStr ''scissors'') (JStr ''rock'') = ''p2''
   \<and> score (player1 (fst (processRound rock_vs_scissors [] (0, 0)))) = 15
   \<and> score (player2 (fst (processRound rock_vs_scissors [] (0, 0)))) = 0
   \<and> p1Result (snd (snd (processRound rock_vs_scissors [] (0, 0)))) = Some Win
   \<and> p2Result (snd (snd (processRound rock_vs_scissors [] (0, 0)))) = Some Lose"
proof -
  have a: "JStr ''rock'' \<in> set rps_moves" and b: "JStr ''scissors'' \<in> set rps_moves"
    by (simp_all add: rps_moves_def)
  have t: "game_type rock_vs_scissors = ''rps''"
    and m1: "move (player1 rock_vs_scissors) = JStr ''rock''"
    and m2: "move (player2 rock_vs_scissors) = JStr ''scissors''"
    and s: "score (player1 rock_vs_scissors) = 0" "score (player2 rock_vs_scissors) = 0"
    by (simp_all add: rock_vs_scissors_def game_g1_def set_currentPlayer_move_def createGame_def
        Let_def)
  note round = rps_resolution_grid [OF a b t m1 m2, of "[]" "(0, 0)", THEN conjunct2,
      THEN conjunct2, THEN conjunct2]
  show ?thesis
    using round s by (simp add: case_prod_beta rps_table)
qed

subsection \<open>The move handler\<close>

lemma processRound_isPlayer1: "isPlayer1 (snd (snd (processRound g lb r))) = True"
  by (simp add: processRound_def Let_def case_prod_beta)

lemma processRound_frame:
  "game_round (fst (processRound g lb r)) = game_round g + 1"
  "game_status (fst (processRound g lb r)) = game_status g"
  "game_type (fst (processRound g lb r)) = game_type g"
  "game_id (fst (processRound g lb r)) = game_id g"
  "odId (player1 (fst (processRound g lb r))) = odId (player1 g)"
  "odId (player2 (fst (processRound g lb r))) = odId (player2 g)"
  "isAI (player1 (fst (processRound g lb r))) = isAI (player1 g)"
  "isAI (player2 (fst (processRound g lb r))) = isAI (player2 g)"
  "move (player1 (fst (processRound g lb r))) = move (player1 g)"
  "move (player2 (fst (processRound g lb r))) = move (player2 g)"
  by (simp_all add: processRound_def Let_def case_prod_beta)

lemma both_sides_truthy:
  "(truthy (move (currentPlayer isP1 g)) \<and> truthy (move (opponent isP1 g)))
     = (truthy (move (player1 g)) \<and> truthy (move (player2 g)))"
  by (cases isP1) (auto simp: currentPlayer_def opponent_def)

lemma on_move_waits:
  assumes "games st gid = Some g" and "players st sid = Some p" and "game_status g = Playing"
    and "g2 = record_moves (odId (player1 g) = sid) mv (fst rnd) g"
    and "\<not> (truthy (move (player1 g2)) \<and> truthy (move (player2 g2)))"
  shows "on_move st sid gid mv rnd =
     (st\<lparr>games := (games st)(gid \<mapsto> g2)\<rparr>,
      if \<not> isAI (opponent (odId (player1 g) = sid) g2)
      then [(sid, Waiting), (odId (opponent (odId (player1 g) = sid) g2), OpponentMoved)]
      else [])"
proof -
  have nb: "(truthy (move (player1 g2)) \<and> truthy (move (player2 g2))) = False"
    using assms(5) by simp
  show ?thesis
    using assms(1,2,3) nb unfolding assms(4)
    by (simp add: on_move_def Let_def both_sides_truthy del: de_Morgan_conj)
qed

lemma on_move_resolves:
  assumes "games st gid = Some g" and "players st sid = Some p" and "game_status g = Playing"
    and "g2 = record_moves (odId (player1 g) = sid) mv (fst rnd) g"
    and "truthy (move (player1 g2))" and "truthy (move (player2 g2))"
    and "processRound g2 (leaderboard st) (snd rnd) = (g3, lb3, res)"
  shows "on_move st sid gid mv rnd =
     (st\<lparr>games := (games st)(gid \<mapsto> g3\<lparr>player1 := (player1 g3)\<lparr>move := JNull\<rparr>,
                                          player2 := (player2 g3)\<lparr>move := JNull\<rparr>\<rparr>),
         leaderboard := lb3\<rparr>,
      [(sid, RoundResult
           \<lparr>rr_round = game_round g3 - 1, yourMove = p1Move res, opponentMove = p2Move res,
            rr_result = p1Result res,
            scores_you = (if odId (player1 g) = sid then score (player1 g3) else score (player2 g3)),
            scores_opponent =
              (if odId (player1 g) = sid then score (player2 g3) else score (player1 g3))\<rparr>)] @
      (if \<not> isAI (opponent (odId (player1 g) = sid) g2) then
         [(odId (opponent (odId (player1 g) = sid) g2), RoundResult
             \<lparr>rr_round = game_round g3 - 1, yourMove = p2Move res, opponentMove = p1Move res,
              rr_result = (if odId (player1 g) \<noteq> sid then p1Result res else p2Result res),
              scores_you =
                (if odId (player1 g) \<noteq> sid then score (player1 g3) else score (player2 g3)),
              scores_opponent =
                (if odId (player1 g) \<noteq> sid then score (player2 g3) else score (player1 g3))\<rparr>)]
       else []))"
proof -
  have res: "isPlayer1 res"
    using processRound_isPlayer1 [of g2 "leaderboard st" "snd rnd"] assms(7) by simp
  show ?thesis
    using assms(1,2,3,5,6,7) res unfolding assms(4)
    by (simp add: on_move_def Let_def both_sides_truthy)
qed

lemma record_moves_humans:
  assumes "\<not> isAI (player1 g)" and "\<not> isAI (player2 g)"
  shows "record_moves isP1 mv u g = set_currentPlayer_move isP1 mv g"
  using assms by (simp add: record_moves_def Let_def opponent_def set_currentPlayer_move_def)


lemma set_currentPlayer_move_frame:
  "game_round (set_currentPlayer_move b v g) = game_round g"
  "game_status (set_currentPlayer_move b v g) = game_status g"
  "game_type (set_currentPlayer_move b v g) = game_type g"
  "odId (player1 (set_currentPlayer_move b v g)) = odId (player1 g)"
  "odId (player2 (set_currentPlayer_move b v g)) = odId (player2 g)"
  "isAI (player1 (set_currentPlayer_move b v g)) = isAI (player1 g)"
  "isAI (player2 (set_currentPlayer_move b v g)) = isAI (player2 g)"
  "score (player1 (set_currentPlayer_move b v g)) = score (player1 g)"
  "score (player2 (set_currentPlayer_move b v g)) = score (player2 g)"
  "move (currentPlayer b (set_currentPlayer_move b v g)) = v"
  "move (opponent b (set_currentPlayer_move b v g)) = move (opponent b g)"
  by (simp_all add: set_currentPlayer_move_def currentPlayer_def opponent_def)

lemma set_opponent_move_frame:
  "game_round (set_opponent_move b v g) = game_round g"
  "game_status (set_opponent_move b v g) = game_status g"
  "game_type (set_opponent_move b v g) = game_type g"
  "odId (player1 (set_opponent_move b v g)) = odId (player1 g)"
  "odId (player2 (set_opponent_move b v g)) = odId (player2 g)"
  "isAI (player1 (set_opponent_move b v g)) = isAI (player1 g)"
  "isAI (player2 (set_opponent_move b v g)) = isAI (player2 g)"
  "score (player1 (set_opponent_move b v g)) = score (player1 g)"
  "score (player2 (set_opponent_move b v g)) = score (player2 g)"
  "move (currentPlayer b (set_opponent_move b v g)) = move (currentPlayer b g)"
  "move (opponent b (set_opponent_move b v g)) = v"
  by (simp_all add: set_opponent_move_def currentPlayer_def opponent_def)

lemma record_moves_frame:
  "game_round (record_moves b v u g) = game_round g"
  "game_status (record_moves b v u g) = game_status g"
  "game_type (record_moves b v u g) = game_type g"
  "odId (player1 (record_moves b v u g)) = odId (player1 g)"
  "odId (player2 (record_moves b v u g)) = odId (player2 g)"
  "isAI (player1 (record_moves b v u g)) = isAI (player1 g)"
  "isAI (player2 (record_moves b v u g)) = isAI (player2 g)"
  "score (player1 (record_moves b v u g)) = score (player1 g)"
  "score (player2 (record_moves b v u g)) = score (player2 g)"
  "move (currentPlayer b (record_moves b v u g)) = v"
  by (simp_all add: record_moves_def Let_def set_currentPlayer_move_frame set_opponent_move_frame)

lemma one_side_falsy:
  "\<not> truthy (move (currentPlayer b g)) \<or> \<not> truthy (move (opponent b g))
     \<Longrightarrow> \<not> (truthy (move (player1 g)) \<and> truthy (move (player2 g)))"
  by (cases b) (auto simp: currentPlayer_def opponent_def)

lemma falsy_move_recorded:
  assumes "games st gid = Some g" and "players st sid = Some p" and "game_status g = Playing"
    and "\<not> truthy mv"
  shows "fst (on_move st sid gid mv rnd) =
           st\<lparr>games := (games st)(gid \<mapsto> record_moves (odId (player1 g) = sid) mv (fst rnd) g)\<rparr>"
proof -
  have "\<not> truthy (move (currentPlayer (odId (player1 g) = sid)
              (record_moves (odId (player1 g) = sid) mv (fst rnd) g)))"
    using assms(4) by (simp add: record_moves_frame)
  then have "\<not> (truthy (move (player1 (record_moves (odId (player1 g) = sid) mv (fst rnd) g)))
       \<and> truthy (move (player2 (record_moves (odId (player1 g) = sid) mv (fst rnd) g))))"
    by (intro one_side_falsy disjI1)
  from on_move_waits [OF assms(1,2,3) refl this] show ?thesis by simp
qed

lemma round_result_iff_truthy:
  assumes "games st gid = Some g" and "players st sid = Some p" and "game_status g = Playing"
    and "g2 = record_moves (odId (player1 g) = sid) mv (fst rnd) g"
  shows "(\<exists>to r. (to, RoundResult r) \<in> set (snd (on_move st sid gid mv rnd)))
           = (truthy (move (player1 g2)) \<and> truthy (move (player2 g2)))"
proof (cases "truthy (move (player1 g2)) \<and> truthy (move (player2 g2))")
  case True
  obtain g3 lb3 res where pr: "processRound g2 (leaderboard st) (snd rnd) = (g3, lb3, res)"
    by (cases "processRound g2 (leaderboard st) (snd rnd)") auto
  from True have t1: "truthy (move (player1 g2))" and t2: "truthy (move (player2 g2))" by simp_all
  have "\<exists>r. (sid, RoundResult r) \<in> set (snd (on_move st sid gid mv rnd))"
    unfolding on_move_resolves [OF assms(1,2,3,4) t1 t2 pr] by (simp add: ex_disj_distrib)
  with True show ?thesis by blast
next
  case False
  have "\<forall>to r. (to, RoundResult r) \<notin> set (snd (on_move st sid gid mv rnd))"
    unfolding on_move_waits [OF assms(1,2,3,4) False] by simp
  with False show ?thesis by blast
qed

lemma stalled_round:
  assumes "games st gid = Some g" and "players st y = Some py" and "game_status g = Playing"
    and "\<not> isAI (player1 g)" and "\<not> isAI (player2 g)"
    and "\<not> truthy (move (opponent (odId (player1 g) = y) g))"
  shows "\<exists>g'. games (moves_from st y gid ms) gid = Some g'
           \<and> game_round g' = game_round g \<and> game_status g' = Playing
           \<and> score (player1 g') = score (player1 g) \<and> score (player2 g') = score (player2 g)
           \<and> move (opponent (odId (player1 g) = y) g') = move (opponent (odId (player1 g) = y) g)
           \<and> leaderboard (moves_from st y gid ms) = leaderboard st"
  using assms
proof (induction ms arbitrary: st g)
  case Nil
  then show ?case by simp
next
  case (Cons m ms)
  obtain mv rnd where m: "m = (mv, rnd)" by (cases m)
  define b where "b = (odId (player1 g) = y)"
  define g2 where "g2 = set_currentPlayer_move b mv g"
  have rec: "g2 = record_moves (odId (player1 g) = y) mv (fst rnd) g"
    using Cons.prems(4,5) by (simp add: record_moves_humans g2_def b_def)
  have opp: "move (opponent b g2) = move (opponent b g)"
    by (simp add: g2_def set_currentPlayer_move_frame)
  then have "\<not> truthy (move (opponent b g2))"
    using Cons.prems(6) by (simp add: b_def)
  then have nb: "\<not> (truthy (move (player1 g2)) \<and> truthy (move (player2 g2)))"
    by (intro one_side_falsy disjI2)
  define st' where "st' = st\<lparr>games := (games st)(gid \<mapsto> g2)\<rparr>"
  have step: "fst (on_move st y gid mv rnd) = st'"
    unfolding on_move_waits [OF Cons.prems(1,2,3) rec nb] by (simp add: st'_def)
  have b': "(odId (player1 g2) = y) = b"
    by (simp add: g2_def set_currentPlayer_move_frame b_def)
  have "\<exists>g'. games (moves_from st' y gid ms) gid = Some g'
           \<and> game_round g' = game_round g2 \<and> game_status g' = Playing
           \<and> score (player1 g') = score (player1 g2) \<and> score (player2 g') = score (player2 g2)
           \<and> move (opponent (odId (player1 g2) = y) g') = move (opponent (odId (player1 g2) = y) g2)
           \<and> leaderboard (moves_from st' y gid ms) = leaderboard st'"
  proof (rule Cons.IH)
    show "games st' gid = Some g2" by (simp add: st'_def)
    show "players st' y = Some py" using Cons.prems(2) by (simp add: st'_def)
    show "game_status g2 = Playing"
      using Cons.prems(3) by (simp add: g2_def set_currentPlayer_move_frame)
    show "\<not> isAI (player1 g2)" "\<not> isAI (player2 g2)"
      using Cons.prems(4,5) by (simp_all add: g2_def set_currentPlayer_move_frame)
    show "\<not> truthy (move (opponent (odId (player1 g2) = y) g2))"
      using \<open>\<not> truthy (move (opponent b g2))\<close> by (simp add: b')
  qed
  then show ?case
    unfolding m moves_from.simps step b' 
    by (simp add: opp g2_def set_currentPlayer_move_frame st'_def b_def)
qed


subsection \<open>The session of two players, evaluated\<close>

lemma st_registered_eq:
  "st_registered =
     \<lparr>games = Map.empty,
      players = [''sockA'' \<mapsto> \<lparr>player_odId = ''sockA'', player_name = JStr ''ann'',
                                currentGame = None\<rparr>,
                 ''sockB'' \<mapsto> \<lparr>player_odId = ''sockB'', player_name = JStr ''bob'',
                                currentGame = None\<rparr>],
      queues = \<lparr>dice = [], rps = []\<rparr>,
      leaderboard =
        [(''sockA'', \<lparr>entry_odId = ''sockA'', entry_name = JStr ''ann'', wins = 0, losses = 0,
                       entry_score = 0\<rparr>),
         (''sockB'', \<lparr>entry_odId = ''sockB'', entry_name = JStr ''bob'', wins = 0, losses = 0,
                       entry_score = 0\<rparr>)]\<rparr>"
  by (simp add: st_registered_def on_register_def init_state_def Let_def)

lemma st_queued_eq: "st_queued = st_registered\<lparr>queues := \<lparr>dice = [], rps = [''sockA'']\<rparr>\<rparr>"
  by (simp add: st_queued_def st_registered_eq on_join_queue_def queue_of_def set_queue_def
      state_of_def Let_def)

lemma st_playing_eq:
  "st_playing =
     \<lparr>games = [''g1'' \<mapsto>
         \<lparr>game_id = ''g1'', game_type = ''rps'',
          player1 = \<lparr>odId = ''sockA'', name = JStr ''ann'', score = 0, move = JNull, isAI = False\<rparr>,
          player2 = \<lparr>odId = ''sockB'', name = JStr ''bob'', score = 0, move = JNull, isAI = False\<rparr>,
          game_status = Playing, game_round = 1\<rparr>],
      players = [''sockA'' \<mapsto> \<lparr>player_odId = ''sockA'', player_name = JStr ''ann'',
                                currentGame = Some ''g1''\<rparr>,
                 ''sockB'' \<mapsto> \<lparr>player_odId = ''sockB'', player_name = JStr ''bob'',
                                currentGame = Some ''g1''\<rparr>],
      queues = \<lparr>dice = [], rps = []\<rparr>,
      leaderboard =
        [(''sockA'', \<lparr>entry_odId = ''sockA'', entry_name = JStr ''ann'', wins = 0, losses = 0,
                       entry_score = 0\<rparr>),
         (''sockB'', \<lparr>entry_odId = ''sockB'', entry_name = JStr ''bob'', wins = 0, losses = 0,
                       entry_score = 0\<rparr>)]\<rparr>"
  by (simp add: st_playing_def st_queued_eq st_registered_eq on_join_queue_def queue_of_def
      set_queue_def createGame_def state_of_def Let_def fun_eq_iff)

lemma game_g1_eq:
  "game_g1 =
     \<lparr>game_id = ''g1'', game_type = ''rps'',
      player1 = \<lparr>odId = ''sockA'', name = JStr ''ann'', score = 0, move = JNull, isAI = False\<rparr>,
      player2 = \<lparr>odId = ''sockB'', name = JStr ''bob'', score = 0, move = JNull, isAI = False\<rparr>,
      game_status = Playing, game_round = 1\<rparr>"
  by (simp add: game_g1_def createGame_def Let_def)

lemma st_playing_lookup:
  "games st_playing ''g1'' = Some game_g1"
  "players st_playing ''sockA'' =
     Some \<lparr>player_odId = ''sockA'', player_name = JStr ''ann'', currentGame = Some ''g1''\<rparr>"
  "players st_playing ''sockB'' =
     Some \<lparr>player_odId = ''sockB'', player_name = JStr ''bob'', currentGame = Some ''g1''\<rparr>"
  by (simp_all add: st_playing_eq game_g1_eq)

subsection \<open>Falsy moves\<close>

text \<open>
  Claim C10. For a \<^verbatim>\<open>move\<close> event of a registered connection on a game that is being
  played, a \<^verbatim>\<open>round_result\<close> is emitted exactly when both pending moves are truthy after
  the move was recorded. The submitted value is recorded on the caller's side. When it
  is falsy the handler only stores the game with that move: round counter, scores and
  leaderboard stay as they were; and in a game of two humans, however many moves the
  connection on the other side sends after that, the game stays in the same round with
  the same scores, the falsy move still pending.
\<close>

theorem falsy_move_never_resolves:
  assumes "games st gid = Some g" and "players st sid = Some p" and "game_status g = Playing"
    and "isP1 = (odId (player1 g) = sid)"
    and "g2 = record_moves isP1 mv (fst rnd) g"
    and "st' = fst (on_move st sid gid mv rnd)"
  shows "((\<exists>to r. (to, RoundResult r) \<in> set (snd (on_move st sid gid mv rnd)))
            = (truthy (move (player1 g2)) \<and> truthy (move (player2 g2))))
       \<and> move (currentPlayer isP1 g2) = mv
       \<and> (\<not> truthy mv \<longrightarrow>
             games st' gid = Some g2 \<and> game_round g2 = game_round g
           \<and> score (player1 g2) = score (player1 g) \<and> score (player2 g2) = score (player2 g)
           \<and> leaderboard st' = leaderboard st
           \<and> (\<not> isAI (player1 g) \<and> \<not> isAI (player2 g) \<and> players st y = Some py
                \<and> (odId (player1 g) = y) \<noteq> isP1 \<longrightarrow>
                (\<exists>g'. games (moves_from st' y gid ms) gid = Some g'
                   \<and> game_round g' = game_round g \<and> game_status g' = Playing
                   \<and> score (player1 g') = score (player1 g)
                   \<and> score (player2 g') = score (player2 g)
                   \<and> move (currentPlayer isP1 g') = mv
                   \<and> leaderboard (moves_from st' y gid ms) = leaderboard st)))"
proof (intro conjI impI)
  show "(\<exists>to r. (to, RoundResult r) \<in> set (snd (on_move st sid gid mv rnd)))
          = (truthy (move (player1 g2)) \<and> truthy (move (player2 g2)))"
    using round_result_iff_truthy [OF assms(1,2,3)] assms(4,5) by simp
  show rec: "move (currentPlayer isP1 g2) = mv"
    by (simp add: assms(5) record_moves_frame)
  show "game_round g2 = game_round g" "score (player1 g2) = score (player1 g)"
    "score (player2 g2) = score (player2 g)"
    by (simp_all add: assms(5) record_moves_frame)
next
  assume falsy: "\<not> truthy mv"
  have st': "st' = st\<lparr>games := (games st)(gid \<mapsto> g2)\<rparr>"
    using falsy_move_recorded [OF assms(1,2,3) falsy] assms(4,5,6) by simp
  show "games st' gid = Some g2" "leaderboard st' = leaderboard st"
    by (simp_all add: st')
  assume other: "\<not> isAI (player1 g) \<and> \<not> isAI (player2 g) \<and> players st y = Some py
                \<and> (odId (player1 g) = y) \<noteq> isP1"
  have p1: "odId (player1 g2) = odId (player1 g)"
    by (simp add: assms(5) record_moves_frame)
  have sides: "opponent (odId (player1 g) = y) = currentPlayer isP1"
    using other by (auto simp: opponent_def currentPlayer_def fun_eq_iff)
  have "\<exists>g'. games (moves_from st' y gid ms) gid = Some g'
           \<and> game_round g' = game_round g2 \<and> game_status g' = Playing
           \<and> score (player1 g') = score (player1 g2) \<and> score (player2 g') = score (player2 g2)
           \<and> move (opponent (odId (player1 g2) = y) g') = move (opponent (odId (player1 g2) = y) g2)
           \<and> leaderboard (moves_from st' y gid ms) = leaderboard st'"
  proof (rule stalled_round)
    show "games st' gid = Some g2" by (simp add: st')
    show "players st' y = Some py" using other by (simp add: st')
    show "game_status g2 = Playing" using assms(3) by (simp add: assms(5) record_moves_frame)
    show "\<not> isAI (player1 g2)" "\<not> isAI (player2 g2)"
      using other by (simp_all add: assms(5) record_moves_frame)
    show "\<not> truthy (move (opponent (odId (player1 g2) = y) g2))"
      unfolding p1 sides using falsy by (simp add: assms(5) record_moves_frame)
  qed
  then show "\<exists>g'. games (moves_from st' y gid ms) gid = Some g'
                   \<and> game_round g' = game_round g \<and> game_status g' = Playing
                   \<and> score (player1 g') = score (player1 g)
                   \<and> score (player2 g') = score (player2 g)
                   \<and> move (currentPlayer isP1 g') = mv
                   \<and> leaderboard (moves_from st' y gid ms) = leaderboard st"
    unfolding p1 sides by (simp add: assms(5) record_moves_frame st')
qed


theorem falsy_move_never_resolves_witness:
  "\<not> truthy (JStr [])
   \<and> \<not> (\<exists>to r. (to, RoundResult r)
              \<in> set (snd (on_move st_playing ''sockA'' ''g1'' (JStr []) (0, 0, 0))))
   \<and> (\<exists>g'. games (moves_from (fst (on_move st_playing ''sockA'' ''g1'' (JStr []) (0, 0, 0)))
                 ''sockB'' ''g1'' [(JStr ''rock'', (0, 0, 0)), (JStr ''paper'', (0, 0, 0))]) ''g1''
               = Some g'
          \<and> game_round g' = 1 \<and> game_status g' = Playing
          \<and> score (player1 g') = 0 \<and> score (player2 g') = 0 \<and> move (player1 g') = JStr [])"
proof -
  note th = falsy_move_never_resolves [OF st_playing_lookup(1,2) _ refl refl refl,
      of "JStr []" "(0, 0, 0)" "''sockB''"
         "\<lparr>player_odId = ''sockB'', player_name = JStr ''bob'', currentGame = Some ''g1''\<rparr>"
         "[(JStr ''rock'', (0, 0, 0)), (JStr ''paper'', (0, 0, 0))]"]
  have playing: "game_status game_g1 = Playing"
    by (simp add: game_g1_eq)
  have sides: "odId (player1 game_g1) = ''sockA''" "\<not> isAI (player1 game_g1)"
    "\<not> isAI (player2 game_g1)" "score (player1 game_g1) = 0" "score (player2 game_g1) = 0"
    "game_round game_g1 = 1"
    by (simp_all add: game_g1_eq)
  have rec: "move (player2 (record_moves True (JStr []) 0 game_g1)) = JNull"
    by (simp add: game_g1_eq record_moves_def set_currentPlayer_move_def opponent_def Let_def)
  show ?thesis
    using th [OF playing] st_playing_lookup(3) sides rec
    by (simp add: currentPlayer_def) blast
qed

subsection \<open>Dice\<close>

lemma rollDice_range:
  assumes "0 \<le> u" and "u < 1"
  shows "rollDice u \<in> {1..6}"
proof -
  have "0 \<le> \<lfloor>u * 6\<rfloor>" using assms(1) by simp
  moreover have "\<lfloor>u * 6\<rfloor> < 6" using assms(2) by (simp add: floor_less_iff)
  ultimately show ?thesis by (simp add: rollDice_def)
qed

lemma processRound_dice:
  assumes "game_type g = ''dice''"
  shows "processRound g lb (u, v) =
     (let a = rollDice u; b = rollDice v;
          g1 = (if a > b then g\<lparr>player1 := (player1 g)\<lparr>score := score (player1 g) + 10\<rparr>\<rparr>
                else if a < b then g\<lparr>player2 := (player2 g)\<lparr>score := score (player2 g) + 10\<rparr>\<rparr>
                else g);
          r1 = (if a > b then Win else if a < b then Lose else Tie);
          r2 = (if a > b then Lose else if a < b then Win else Tie)
      in (g1\<lparr>game_round := game_round g + 1\<rparr>,
          (if \<not> isAI (player2 g) \<and> r1 \<noteq> Tie then
             updateLeaderboard (updateLeaderboard lb (odId (player1 g)) (r1 = Win))
               (odId (player2 g)) (r2 = Win)
           else lb),
          \<lparr>p1Move = JNum a, p2Move = JNum b,
            p1Result = Some r1, p2Result = Some r2, isPlayer1 = True\<rparr>))"
  using assms by (simp add: processRound_def Let_def)

lemma processRound_dice_scores:
  assumes "game_type g = ''dice''"
  shows "score (player1 (fst (processRound g lb (u, v))))
           = score (player1 g) + (if rollDice u > rollDice v then 10 else 0)"
    and "score (player2 (fst (processRound g lb (u, v))))
           = score (player2 g) + (if rollDice u < rollDice v then 10 else 0)"
  by (simp_all add: processRound_dice [OF assms] Let_def)

lemma on_move_refused:
  assumes "games st gid = None \<or> players st sid = None
             \<or> (\<exists>g. games st gid = Some g \<and> game_status g \<noteq> Playing)"
  shows "on_move st sid gid mv rnd = (st, [(sid, ErrorMessage ''Invalid game state'')])"
  using assms by (auto simp: on_move_def split: option.splits)

lemma on_move_dice_step:
  assumes "games st gid = Some g" and "game_type g = ''dice''"
  shows "\<exists>g'. games (fst (on_move st sid gid mv (w, u, v))) gid = Some g'
           \<and> game_type g' = ''dice''
           \<and> score (player1 g') = score (player1 g)
                + (if round_resolved (snd (on_move st sid gid mv (w, u, v)))
                      \<and> rollDice u > rollDice v then 10 else 0)
           \<and> score (player2 g') = score (player2 g)
                + (if round_resolved (snd (on_move st sid gid mv (w, u, v)))
                      \<and> rollDice u < rollDice v then 10 else 0)
           \<and> game_round g' = game_round g
                + (if round_resolved (snd (on_move st sid gid mv (w, u, v))) then 1 else 0)"
proof (cases "players st sid = None \<or> game_status g \<noteq> Playing")
  case True
  then have "on_move st sid gid mv (w, u, v) = (st, [(sid, ErrorMessage ''Invalid game state'')])"
    using assms(1) by (intro on_move_refused) auto
  then show ?thesis
    using assms by (simp add: round_resolved_def)
next
  case False
  then obtain p where p: "players st sid = Some p" and playing: "game_status g = Playing"
    by auto
  define g2 where "g2 = record_moves (odId (player1 g) = sid) mv (fst (w, u, v)) g"
  have ty: "game_type g2 = ''dice''"
    using assms(2) by (simp add: g2_def record_moves_frame)
  have g2g: "score (player1 g2) = score (player1 g)" "score (player2 g2) = score (player2 g)"
    "game_round g2 = game_round g"
    by (simp_all add: g2_def record_moves_frame)
  show ?thesis
  proof (cases "truthy (move (player1 g2)) \<and> truthy (move (player2 g2))")
    case True
    then have t: "truthy (move (player1 g2))" "truthy (move (player2 g2))" by simp_all
    obtain g3 lb3 res where
      pr: "processRound g2 (leaderboard st) (snd (w, u, v)) = (g3, lb3, res)"
      by (cases "processRound g2 (leaderboard st) (snd (w, u, v))") auto
    then have g3: "g3 = fst (processRound g2 (leaderboard st) (u, v))" by simp
    have s3: "score (player1 g3) = score (player1 g2) + (if rollDice u > rollDice v then 10 else 0)"
      "score (player2 g3) = score (player2 g2) + (if rollDice u < rollDice v then 10 else 0)"
      unfolding g3 by (rule processRound_dice_scores [OF ty])+
    have f3: "game_round g3 = game_round g2 + 1" "game_type g3 = ''dice''"
      unfolding g3 using ty by (simp_all add: processRound_frame)
    show ?thesis
      unfolding on_move_resolves [OF assms(1) p playing g2_def t pr]
      by (simp add: round_resolved_def s3 f3 g2g)
  next
    case False
    show ?thesis
      unfolding on_move_waits [OF assms(1) p playing g2_def False]
      by (simp add: round_resolved_def ty g2g)
  qed
qed

lemma run_moves_dice_scores:
  assumes "games st gid = Some g" and "game_type g = ''dice''"
  shows "\<exists>gN. games (run_moves st gid es) gid = Some gN
           \<and> score (player1 gN) = score (player1 g) + 10 * rounds_won True st gid es
           \<and> score (player2 gN) = score (player2 g) + 10 * rounds_won False st gid es
           \<and> game_round gN = game_round g + rounds_resolved st gid es"
  using assms
proof (induction es arbitrary: st g)
  case Nil
  then show ?case by simp
next
  case (Cons e es)
  obtain sid mv w u v where e: "e = (sid, mv, w, u, v)" by (cases e)
  from on_move_dice_step [OF Cons.prems, of sid mv w u v]
  obtain g' where g': "games (fst (on_move st sid gid mv (w, u, v))) gid = Some g'"
    "game_type g' = ''dice''"
    "score (player1 g') = score (player1 g)
       + (if round_resolved (snd (on_move st sid gid mv (w, u, v)))
             \<and> rollDice u > rollDice v then 10 else 0)"
    "score (player2 g') = score (player2 g)
       + (if round_resolved (snd (on_move st sid gid mv (w, u, v)))
             \<and> rollDice u < rollDice v then 10 else 0)"
    "game_round g' = game_round g
       + (if round_resolved (snd (on_move st sid gid mv (w, u, v))) then 1 else 0)"
    by blast
  from Cons.IH [OF g'(1,2), of ]
  obtain gN where gN: "games (run_moves (fst (on_move st sid gid mv (w, u, v))) gid es) gid = Some gN"
    "score (player1 gN) = score (player1 g')
       + 10 * rounds_won True (fst (on_move st sid gid mv (w, u, v))) gid es"
    "score (player2 gN) = score (player2 g')
       + 10 * rounds_won False (fst (on_move st sid gid mv (w, u, v))) gid es"
    "game_round gN = game_round g' + rounds_resolved (fst (on_move st sid gid mv (w, u, v))) gid es"
    by blast
  show ?case
    unfolding e by (rule exI [of _ gN]) (simp add: gN g'(3,4,5))
qed


lemma createGame_fresh:
  "score (player1 (snd (createGame gs i ty q1 q2 ai))) = 0"
  "score (player2 (snd (createGame gs i ty q1 q2 ai))) = 0"
  "move (player1 (snd (createGame gs i ty q1 q2 ai))) = JNull"
  "move (player2 (snd (createGame gs i ty q1 q2 ai))) = JNull"
  "game_round (snd (createGame gs i ty q1 q2 ai)) = 1"
  "game_status (snd (createGame gs i ty q1 q2 ai)) = Playing"
  "game_type (snd (createGame gs i ty q1 q2 ai)) = ty"
  by (simp_all add: createGame_def Let_def)

text \<open>
  Claim C9. In a round of a dice game the two values \<open>a\<close> and \<open>b\<close> rolled from draws in
  \<open>[0, 1)\<close> lie between 1 and 6 and are the moves shown. If \<open>a > b\<close> side 1 wins and gains
  10 while side 2 gains nothing; if \<open>a < b\<close> the reverse; if \<open>a = b\<close> the round is a tie
  and no score changes. A game is created with both scores 0, and after any sequence of
  \<^verbatim>\<open>move\<close> events on a dice game each score has grown by 10 times the number of resolved
  rounds that side won strictly, the round counter by the number of resolved rounds.
\<close>

theorem dice_round_scores:
  assumes "game_type g = ''dice''" and "0 \<le> u" and "u < 1" and "0 \<le> v" and "v < 1"
    and "a = rollDice u" and "b = rollDice v"
    and "processRound g lb (u, v) = (g', lb', res)"
  shows "a \<in> {1..6} \<and> b \<in> {1..6} \<and> p1Move res = JNum a \<and> p2Move res = JNum b
       \<and> (if a > b then
             p1Result res = Some Win \<and> p2Result res = Some Lose
             \<and> score (player1 g') = score (player1 g) + 10
             \<and> score (player2 g') = score (player2 g)
           else if a < b then
             p1Result res = Some Lose \<and> p2Result res = Some Win
             \<and> score (player1 g') = score (player1 g)
             \<and> score (player2 g') = score (player2 g) + 10
           else
             p1Result res = Some Tie \<and> p2Result res = Some Tie
             \<and> score (player1 g') = score (player1 g)
             \<and> score (player2 g') = score (player2 g))
       \<and> score (player1 (snd (createGame gs i ty q1 q2 ai))) = 0
       \<and> score (player2 (snd (createGame gs i ty q1 q2 ai))) = 0
       \<and> (games st gid = Some g \<longrightarrow>
           (\<exists>gN. games (run_moves st gid es) gid = Some gN
              \<and> score (player1 gN) = score (player1 g) + 10 * rounds_won True st gid es
              \<and> score (player2 gN) = score (player2 g) + 10 * rounds_won False st gid es
              \<and> game_round gN = game_round g + rounds_resolved st gid es))"
proof (intro conjI impI)
  show "a \<in> {1..6}" "b \<in> {1..6}"
    using rollDice_range assms(2-7) by simp_all
  from assms(8) have g': "g' = fst (processRound g lb (u, v))"
    and res: "res = snd (snd (processRound g lb (u, v)))" by simp_all
  show "p1Move res = JNum a" "p2Move res = JNum b"
    by (simp_all add: res processRound_dice [OF assms(1)] Let_def assms(6,7))
  show "if a > b then
             p1Result res = Some Win \<and> p2Result res = Some Lose
             \<and> score (player1 g') = score (player1 g) + 10
             \<and> score (player2 g') = score (player2 g)
           else if a < b then
             p1Result res = Some Lose \<and> p2Result res = Some Win
             \<and> score (player1 g') = score (player1 g)
             \<and> score (player2 g') = score (player2 g) + 10
           else
             p1Result res = Some Tie \<and> p2Result res = Some Tie
             \<and> score (player1 g') = score (player1 g)
             \<and> score (player2 g') = score (player2 g)"
    by (simp add: g' res processRound_dice [OF assms(1)] Let_def assms(6,7))
  show "score (player1 (snd (createGame gs i ty q1 q2 ai))) = 0"
    "score (player2 (snd (createGame gs i ty q1 q2 ai))) = 0"
    by (simp_all add: createGame_fresh)
next
  assume "games st gid = Some g"
  then show "\<exists>gN. games (run_moves st gid es) gid = Some gN
              \<and> score (player1 gN) = score (player1 g) + 10 * rounds_won True st gid es
              \<and> score (player2 gN) = score (player2 g) + 10 * rounds_won False st gid es
              \<and> game_round gN = game_round g + rounds_resolved st gid es"
    using assms(1) by (rule run_moves_dice_scores)
qed

lemma game_g2_eq:
  "game_g2 =
     \<lparr>game_id = ''g2'', game_type = ''dice'',
      player1 = \<lparr>odId = ''sockA'', name = JStr ''ann'', score = 0, move = JNull, isAI = False\<rparr>,
      player2 = \<lparr>odId = ''sockB'', name = JStr ''bob'', score = 0, move = JNull, isAI = False\<rparr>,
      game_status = Playing, game_round = 1\<rparr>"
  by (simp add: game_g2_def createGame_def Let_def)

lemma st_dice_lookup:
  "games st_dice ''g2'' = Some game_g2"
  "players st_dice ''sockA'' =
     Some \<lparr>player_odId = ''sockA'', player_name = JStr ''ann'', currentGame = Some ''g2''\<rparr>"
  "players st_dice ''sockB'' =
     Some \<lparr>player_odId = ''sockB'', player_name = JStr ''bob'', currentGame = Some ''g2''\<rparr>"
  by (simp_all add: st_dice_def st_registered_eq on_join_queue_def queue_of_def
      set_queue_def createGame_def state_of_def Let_def game_g2_eq)

lemma rollDice_samples:
  "rollDice (5 / 6) = 6" "rollDice 0 = 1" "rollDice (1 / 2) = 4" "rollDice (1 / 3) = 3"
  by (simp_all add: rollDice_def)

lemma st_dice_eq:
  "st_dice =
     \<lparr>games = [''g2'' \<mapsto> game_g2],
      players = [''sockA'' \<mapsto> \<lparr>player_odId = ''sockA'', player_name = JStr ''ann'',
                                currentGame = Some ''g2''\<rparr>,
                 ''sockB'' \<mapsto> \<lparr>player_odId = ''sockB'', player_name = JStr ''bob'',
                                currentGame = Some ''g2''\<rparr>],
      queues = \<lparr>dice = [], rps = []\<rparr>,
      leaderboard =
        [(''sockA'', \<lparr>entry_odId = ''sockA'', entry_name = JStr ''ann'', wins = 0, losses = 0,
                       entry_score = 0\<rparr>),
         (''sockB'', \<lparr>entry_odId = ''sockB'', entry_name = JStr ''bob'', wins = 0, losses = 0,
                       entry_score = 0\<rparr>)]\<rparr>"
  by (simp add: st_dice_def st_registered_eq on_join_queue_def queue_of_def
      set_queue_def createGame_def state_of_def Let_def game_g2_eq fun_eq_iff)

lemma two_dice_rounds:
  "rounds_won True st_dice ''g2''
     [(''sockA'', JStr ''roll'', 0, 5 / 6, 0), (''sockB'', JStr ''roll'', 0, 5 / 6, 0),
      (''sockA'', JStr ''roll'', 0, 0, 1 / 2), (''sockB'', JStr ''roll'', 0, 0, 1 / 2)] = 1"
  "rounds_won False st_dice ''g2''
     [(''sockA'', JStr ''roll'', 0, 5 / 6, 0), (''sockB'', JStr ''roll'', 0, 5 / 6, 0),
      (''sockA'', JStr ''roll'', 0, 0, 1 / 2), (''sockB'', JStr ''roll'', 0, 0, 1 / 2)] = 1"
  "rounds_resolved st_dice ''g2''
     [(''sockA'', JStr ''roll'', 0, 5 / 6, 0), (''sockB'', JStr ''roll'', 0, 5 / 6, 0),
      (''sockA'', JStr ''roll'', 0, 0, 1 / 2), (''sockB'', JStr ''roll'', 0, 0, 1 / 2)] = 2"
  by (simp_all add: st_dice_eq game_g2_eq on_move_def record_moves_def set_currentPlayer_move_def
      opponent_def currentPlayer_def processRound_def updateLeaderboard_def Let_def
      round_resolved_def rollDice_samples)

theorem dice_round_scores_witness:
  "rollDice (5 / 6) = 6 \<and> rollDice 0 = 1
   \<and> score (player1 (fst (processRound game_g2 [] (5 / 6, 0)))) = 10
   \<and> score (player2 (fst (processRound game_g2 [] (5 / 6, 0)))) = 0
   \<and> (\<exists>gN. games (run_moves st_dice ''g2''
                    [(''sockA'', JStr ''roll'', 0, 5 / 6, 0), (''sockB'', JStr ''roll'', 0, 5 / 6, 0),
                     (''sockA'', JStr ''roll'', 0, 0, 1 / 2), (''sockB'', JStr ''roll'', 0, 0, 1 / 2)])
                 ''g2'' = Some gN
          \<and> score (player1 gN) = 10 \<and> score (player2 gN) = 10 \<and> game_round gN = 3)"
proof -
  have ty: "game_type game_g2 = ''dice''" by (simp add: game_g2_eq)
  have u: "(0::real) \<le> 5 / 6" "(5::real) / 6 < 1" and v: "(0::real) \<le> 0" "(0::real) < 1"
    by simp_all
  have pr: "processRound game_g2 [] (5 / 6, 0) =
      (fst (processRound game_g2 [] (5 / 6, 0)), fst (snd (processRound game_g2 [] (5 / 6, 0))),
       snd (snd (processRound game_g2 [] (5 / 6, 0))))"
    by simp
  note th = dice_round_scores [OF ty u v refl refl pr,
      of Map.empty "''g2''" "''dice''" "(''sockA'', JStr ''ann'')" "(''sockB'', JStr ''bob'')" False
         st_dice "''g2''"
         "[(''sockA'', JStr ''roll'', 0, 5 / 6, 0), (''sockB'', JStr ''roll'', 0, 5 / 6, 0),
           (''sockA'', JStr ''roll'', 0, 0, 1 / 2), (''sockB'', JStr ''roll'', 0, 0, 1 / 2)]"]
  have g: "score (player1 game_g2) = 0" "score (player2 game_g2) = 0" "game_round game_g2 = 1"
    by (simp_all add: game_g2_eq)
  note run = th [THEN conjunct2, THEN conjunct2, THEN conjunct2, THEN conjunct2, THEN conjunct2,
      THEN conjunct2, THEN conjunct2, THEN mp, OF st_dice_lookup(1), unfolded two_dice_rounds g]
  note round = th [THEN conjunct2, THEN conjunct2, THEN conjunct2, THEN conjunct2, THEN conjunct1,
      unfolded rollDice_samples g]
  show ?thesis
    using run round by (simp add: rollDice_samples del: run_moves.simps)
qed

subsection \<open>Registration\<close>

lemma on_register_known:
  assumes "map_of (leaderboard st) sid = Some e"
  shows "on_register st sid nm =
     (st\<lparr>players := (players st)(sid \<mapsto>
            \<lparr>player_odId = sid,
             player_name = (if truthy nm then nm else JStr (''Player_'' @ take 4 sid)),
             currentGame = None\<rparr>)\<rparr>,
      [(sid, Registered sid (if truthy nm then nm else JStr (''Player_'' @ take 4 sid))
               (getTopPlayers (leaderboard st) 10))])"
  using assms by (simp add: on_register_def Let_def)

lemma on_register_new:
  assumes "map_of (leaderboard st) sid = None"
  shows "fst (on_register st sid nm) =
     st\<lparr>players := (players st)(sid \<mapsto>
            \<lparr>player_odId = sid,
             player_name = (if truthy nm then nm else JStr (''Player_'' @ take 4 sid)),
             currentGame = None\<rparr>),
        leaderboard := leaderboard st @
          [(sid, \<lparr>entry_odId = sid,
                   entry_name = (if truthy nm then nm else JStr (''Player_'' @ take 4 sid)),
                   wins = 0, losses = 0, entry_score = 0\<rparr>)]\<rparr>"
  using assms by (simp add: on_register_def Let_def)

lemma on_register_leaderboard_has:
  "\<exists>e. map_of (leaderboard (fst (on_register st sid nm))) sid = Some e"
proof (cases "map_of (leaderboard st) sid")
  case None
  then show ?thesis by (simp add: on_register_new map_add_def)
next
  case (Some e)
  then show ?thesis by (simp add: on_register_known)
qed

lemma on_register_players:
  "players (fst (on_register st sid nm)) =
     (players st)(sid \<mapsto>
        \<lparr>player_odId = sid,
         player_name = (if truthy nm then nm else JStr (''Player_'' @ take 4 sid)),
         currentGame = None\<rparr>)"
  by (cases "map_of (leaderboard st) sid") (simp_all add: on_register_new on_register_known)

text \<open>
  Claim C7, as amended. A second \<^verbatim>\<open>register\<close> on a connection id that is already known
  leaves the leaderboard as it is, the entry's name included, but the player record is
  replaced: it carries the newly requested name (the default name for a falsy one) and
  no current game. Registering again with the same name leaves all tables as the first
  registration left them and emits the \<^verbatim>\<open>registered\<close> message again.
\<close>

theorem register_twice:
  "leaderboard (fst (on_register (fst (on_register st sid n1)) sid n2))
     = leaderboard (fst (on_register st sid n1))
   \<and> players (fst (on_register (fst (on_register st sid n1)) sid n2)) sid
     = Some \<lparr>player_odId = sid,
             player_name = (if truthy n2 then n2 else JStr (''Player_'' @ take 4 sid)),
             currentGame = None\<rparr>
   \<and> on_register (fst (on_register st sid n1)) sid n1
     = (fst (on_register st sid n1),
        [(sid, Registered sid (if truthy n1 then n1 else JStr (''Player_'' @ take 4 sid))
                 (getTopPlayers (leaderboard (fst (on_register st sid n1))) 10))])"
proof -
  obtain e where e: "map_of (leaderboard (fst (on_register st sid n1))) sid = Some e"
    using on_register_leaderboard_has by blast
  have second: "\<And>nm. fst (on_register (fst (on_register st sid n1)) sid nm) =
      (fst (on_register st sid n1))\<lparr>players := (players (fst (on_register st sid n1)))(sid \<mapsto>
            \<lparr>player_odId = sid,
             player_name = (if truthy nm then nm else JStr (''Player_'' @ take 4 sid)),
             currentGame = None\<rparr>)\<rparr>"
    by (simp add: on_register_known [OF e])
  have same: "(fst (on_register st sid n1))\<lparr>players := (players (fst (on_register st sid n1)))(sid \<mapsto>
            \<lparr>player_odId = sid,
             player_name = (if truthy n1 then n1 else JStr (''Player_'' @ take 4 sid)),
             currentGame = None\<rparr>)\<rparr> = fst (on_register st sid n1)"
    by (simp add: on_register_players split del: if_split)
  show ?thesis
    by (simp add: second split del: if_split)
      (simp add: on_register_known [OF e] same split del: if_split)
qed

text \<open>
  Claim C7 as stated fails: after registering as \<^verbatim>\<open>ann\<close> and again as \<^verbatim>\<open>zed\<close>, the player
  record of the connection is not the one the first registration stored.
\<close>

theorem register_overwrites_name:
  "players (fst (on_register (fst (on_register init_state ''sockA'' (JStr ''ann'')))
                   ''sockA'' (JStr ''zed''))) ''sockA''
     \<noteq> players (fst (on_register init_state ''sockA'' (JStr ''ann''))) ''sockA''"
  by (simp add: on_register_def init_state_def Let_def)

subsection \<open>Moves outside rock, paper, scissors\<close>

lemma rps_wins_Some:
  assumes "rps_wins a = Some b"
  shows "b = JUndefined \<or> (a \<in> set rps_moves \<and> b \<in> set rps_moves)"
proof (cases a)
  case (JStr s)
  with assms show ?thesis
    by (simp add: rps_moves_def split: if_splits)
qed (use assms in simp_all)

lemma getRPSResult_malformed:
  assumes "a \<notin> set rps_moves \<or> b \<notin> set rps_moves" and "truthy b"
  shows "getRPSResult a b = (if a = b then ''tie'' else ''p2'')"
proof -
  have "rps_wins a \<noteq> Some b"
  proof
    assume "rps_wins a = Some b"
    from rps_wins_Some [OF this] assms show False by auto
  qed
  then show ?thesis by (simp add: getRPSResult_def)
qed


lemma on_move_no_error:
  assumes "games st gid = Some g" and "players st sid = Some p" and "game_status g = Playing"
  shows "(to, ErrorMessage m) \<notin> set (snd (on_move st sid gid mv rnd))"
proof -
  define g2 where "g2 = record_moves (odId (player1 g) = sid) mv (fst rnd) g"
  show ?thesis
  proof (cases "truthy (move (player1 g2)) \<and> truthy (move (player2 g2))")
    case True
    obtain g3 lb3 res where pr: "processRound g2 (leaderboard st) (snd rnd) = (g3, lb3, res)"
      by (cases "processRound g2 (leaderboard st) (snd rnd)") auto
    from True have t: "truthy (move (player1 g2))" "truthy (move (player2 g2))" by simp_all
    show ?thesis
      unfolding on_move_resolves [OF assms g2_def t pr] by simp
  next
    case False
    show ?thesis
      unfolding on_move_waits [OF assms g2_def False] by simp
  qed
qed

text \<open>
  Claim C3, as amended. A move value (a string, number, boolean or \<^verbatim>\<open>null\<close>) other than
  rock, paper and scissors is not rejected in an \<^verbatim>\<open>rps\<close> game: for a registered caller and
  a game being played no \<^verbatim>\<open>error\<close> message is emitted and the value is recorded as the
  caller's pending move. If both pending moves
  are then truthy the round is resolved and its result is emitted: the round counter
  advances, side 1 gains nothing, and side 2 gains 15 unless the two values are identical
  (a tie). Otherwise the game is stored with the move recorded and no result is emitted.
\<close>

theorem malformed_rps_move_is_played:
  assumes "games st gid = Some g" and "players st sid = Some p" and "game_status g = Playing"
    and "game_type g = ''rps''" and "mv \<notin> set rps_moves"
    and "isP1 = (odId (player1 g) = sid)" and "g2 = record_moves isP1 mv (fst rnd) g"
    and "on_move st sid gid mv rnd = (st', out)"
  shows "(\<forall>to m. (to, ErrorMessage m) \<notin> set out)
       \<and> move (currentPlayer isP1 g2) = mv
       \<and> (if truthy (move (player1 g2)) \<and> truthy (move (player2 g2)) then
            (\<exists>r. (sid, RoundResult r) \<in> set out)
            \<and> (\<exists>g'. games st' gid = Some g' \<and> game_round g' = game_round g + 1
                  \<and> score (player1 g') = score (player1 g)
                  \<and> score (player2 g') = score (player2 g)
                       + (if move (player1 g2) = move (player2 g2) then 0 else 15))
          else games st' gid = Some g2 \<and> (\<forall>to r. (to, RoundResult r) \<notin> set out))"
proof (intro conjI allI)
  fix to m
  show "(to, ErrorMessage m) \<notin> set out"
    using on_move_no_error [OF assms(1,2,3), of to m mv rnd] assms(8) by simp
next
  show rec: "move (currentPlayer isP1 g2) = mv"
    by (simp add: assms(7) record_moves_frame)
  have g2: "g2 = record_moves (odId (player1 g) = sid) mv (fst rnd) g"
    using assms(6,7) by simp
  show "if truthy (move (player1 g2)) \<and> truthy (move (player2 g2)) then
            (\<exists>r. (sid, RoundResult r) \<in> set out)
            \<and> (\<exists>g'. games st' gid = Some g' \<and> game_round g' = game_round g + 1
                  \<and> score (player1 g') = score (player1 g)
                  \<and> score (player2 g') = score (player2 g)
                       + (if move (player1 g2) = move (player2 g2) then 0 else 15))
          else games st' gid = Some g2 \<and> (\<forall>to r. (to, RoundResult r) \<notin> set out)"
  proof (cases "truthy (move (player1 g2)) \<and> truthy (move (player2 g2))")
    case True
    then have t: "truthy (move (player1 g2))" "truthy (move (player2 g2))" by simp_all
    obtain g3 lb3 res where pr: "processRound g2 (leaderboard st) (snd rnd) = (g3, lb3, res)"
      by (cases "processRound g2 (leaderboard st) (snd rnd)") auto
    have ty: "game_type g2 = ''rps''"
      using assms(4) by (simp add: assms(7) record_moves_frame)
    have "move (player1 g2) = mv \<or> move (player2 g2) = mv"
      using rec by (cases isP1) (simp_all add: currentPlayer_def)
    then have "move (player1 g2) \<notin> set rps_moves \<or> move (player2 g2) \<notin> set rps_moves"
      using assms(5) by auto
    from getRPSResult_malformed [OF this t(2)]
    have res: "getRPSResult (move (player1 g2)) (move (player2 g2))
        = (if move (player1 g2) = move (player2 g2) then ''tie'' else ''p2'')" .
    have g3: "g3 = fst (processRound g2 (leaderboard st) (snd rnd))"
      using pr by simp
    have sc: "score (player1 g3) = score (player1 g2)"
      "score (player2 g3) = score (player2 g2)
          + (if move (player1 g2) = move (player2 g2) then 0 else 15)"
      "game_round g3 = game_round g2 + 1"
      unfolding g3 processRound_rps [OF ty] by (simp_all add: Let_def res)
    have g2g: "score (player1 g2) = score (player1 g)" "score (player2 g2) = score (player2 g)"
      "game_round g2 = game_round g"
      by (simp_all add: assms(7) record_moves_frame)
    from assms(8) have out: "out = snd (on_move st sid gid mv rnd)"
      and st': "st' = fst (on_move st sid gid mv rnd)" by simp_all
    have "\<exists>r. (sid, RoundResult r) \<in> set out"
      unfolding out on_move_resolves [OF assms(1,2,3) g2 t pr] by (simp add: ex_disj_distrib)
    moreover have "games st' gid = Some (g3\<lparr>player1 := (player1 g3)\<lparr>move := JNull\<rparr>,
                                          player2 := (player2 g3)\<lparr>move := JNull\<rparr>\<rparr>)"
      unfolding st' on_move_resolves [OF assms(1,2,3) g2 t pr] by simp
    ultimately show ?thesis
      using True by (simp add: sc g2g)
  next
    case False
    from assms(8) have out: "out = snd (on_move st sid gid mv rnd)"
      and st': "st' = fst (on_move st sid gid mv rnd)" by simp_all
    have "games st' gid = Some g2" "\<forall>to r. (to, RoundResult r) \<notin> set out"
      unfolding st' out on_move_waits [OF assms(1,2,3) g2 False] by simp_all
    with False show ?thesis by simp
  qed
qed

lemma st_rock_pending_lookup:
  "games st_rock_pending ''g1'' = Some (set_currentPlayer_move True (JStr ''rock'') game_g1)"
  "players st_rock_pending ''sockA'' =
     Some \<lparr>player_odId = ''sockA'', player_name = JStr ''ann'', currentGame = Some ''g1''\<rparr>"
  "players st_rock_pending ''sockB'' =
     Some \<lparr>player_odId = ''sockB'', player_name = JStr ''bob'', currentGame = Some ''g1''\<rparr>"
  "leaderboard st_rock_pending = leaderboard st_playing"
  "queues st_rock_pending = queues st_playing"
proof -
  have g: "game_status game_g1 = Playing" by (simp add: game_g1_eq)
  have r: "set_currentPlayer_move True (JStr ''rock'') game_g1
      = record_moves (odId (player1 game_g1) = ''sockA'') (JStr ''rock'') (fst (0::real, 0::real, 0::real)) game_g1"
    by (simp add: game_g1_eq record_moves_def opponent_def set_currentPlayer_move_def Let_def)
  have nb: "\<not> (truthy (move (player1 (set_currentPlayer_move True (JStr ''rock'') game_g1)))
         \<and> truthy (move (player2 (set_currentPlayer_move True (JStr ''rock'') game_g1))))"
    by (simp add: game_g1_eq set_currentPlayer_move_def)
  note step = on_move_waits [OF st_playing_lookup(1,2) g r nb]
  show "games st_rock_pending ''g1'' = Some (set_currentPlayer_move True (JStr ''rock'') game_g1)"
    "players st_rock_pending ''sockA'' =
       Some \<lparr>player_odId = ''sockA'', player_name = JStr ''ann'', currentGame = Some ''g1''\<rparr>"
    "players st_rock_pending ''sockB'' =
       Some \<lparr>player_odId = ''sockB'', player_name = JStr ''bob'', currentGame = Some ''g1''\<rparr>"
    "leaderboard st_rock_pending = leaderboard st_playing"
    "queues st_rock_pending = queues st_playing"
    unfolding st_rock_pending_def step by (simp_all add: st_playing_lookup)
qed



lemmas eval_move = on_move_def st_rock_pending_lookup st_playing_eq game_g1_eq record_moves_def
  set_currentPlayer_move_def opponent_def currentPlayer_def processRound_def getRPSResult_def
  updateLeaderboard_def Let_def rps_moves_def

text \<open>
  Claim C3 as stated fails: with rock pending on side 1, the move \<^verbatim>\<open>lizard\<close> of side 2 is
  not rejected. The round is resolved, both connections get a \<^verbatim>\<open>round_result\<close>, side 2
  gains 15 and the round counter advances to 2.
\<close>

theorem malformed_rps_move_resolved:
  "JStr ''lizard'' \<notin> set rps_moves
   \<and> snd (on_move st_rock_pending ''sockB'' ''g1'' (JStr ''lizard'') (0, 0, 0)) =
       [(''sockB'', RoundResult
           \<lparr>rr_round = 1, yourMove = JStr ''rock'', opponentMove = JStr ''lizard'',
            rr_result = Some Lose, scores_you = 15, scores_opponent = 0\<rparr>),
        (''sockA'', RoundResult
           \<lparr>rr_round = 1, yourMove = JStr ''lizard'', opponentMove = JStr ''rock'',
            rr_result = Some Lose, scores_you = 0, scores_opponent = 15\<rparr>)]
   \<and> map_option (\<lambda>g. (score (player1 g), score (player2 g), game_round g))
        (games (fst (on_move st_rock_pending ''sockB'' ''g1'' (JStr ''lizard'') (0, 0, 0))) ''g1'')
       = Some (0, 15, 2)"
  by (simp add: eval_move)


theorem malformed_rps_move_is_played_witness:
  "JStr ''lizard'' \<notin> set rps_moves
   \<and> \<not> (\<exists>to m. (to, ErrorMessage m)
              \<in> set (snd (on_move st_rock_pending ''sockB'' ''g1'' (JStr ''lizard'') (0, 0, 0))))
   \<and> (\<exists>r. (''sockB'', RoundResult r)
              \<in> set (snd (on_move st_rock_pending ''sockB'' ''g1'' (JStr ''lizard'') (0, 0, 0))))
   \<and> (\<exists>g'. games (fst (on_move st_rock_pending ''sockB'' ''g1'' (JStr ''lizard'') (0, 0, 0))) ''g1''
               = Some g'
          \<and> game_round g' = 2 \<and> score (player1 g') = 0 \<and> score (player2 g') = 15)"
proof -
  let ?g = "set_currentPlayer_move True (JStr ''rock'') game_g1"
  have g: "game_status ?g = Playing" "game_type ?g = ''rps''"
    by (simp_all add: game_g1_eq set_currentPlayer_move_def)
  have mv: "JStr ''lizard'' \<notin> set rps_moves"
    by (simp add: rps_moves_def)
  have pr: "on_move st_rock_pending ''sockB'' ''g1'' (JStr ''lizard'') (0, 0, 0) =
      (fst (on_move st_rock_pending ''sockB'' ''g1'' (JStr ''lizard'') (0, 0, 0)),
       snd (on_move st_rock_pending ''sockB'' ''g1'' (JStr ''lizard'') (0, 0, 0)))"
    by simp
  note th = malformed_rps_move_is_played [OF st_rock_pending_lookup(1,3) g mv refl refl pr]
  have sides: "odId (player1 ?g) \<noteq> ''sockB''" "game_round ?g = 1"
    "score (player1 ?g) = 0" "score (player2 ?g) = 0"
    "move (player1 (record_moves False (JStr ''lizard'') 0 ?g)) = JStr ''rock''"
    "move (player2 (record_moves False (JStr ''lizard'') 0 ?g)) = JStr ''lizard''"
    by (simp_all add: game_g1_eq record_moves_def set_currentPlayer_move_def opponent_def Let_def)
  show ?thesis
    using th mv by (simp add: sides)
qed

subsection \<open>Leaving and disconnecting\<close>

lemma on_disconnect_leaderboard: "leaderboard (fst (on_disconnect st sid)) = leaderboard st"
  by (simp add: on_disconnect_def Let_def case_prod_beta split: option.splits)

lemmas eval_leave = on_leave_game_def on_disconnect_def st_playing_eq updateLeaderboard_def Let_def

text \<open>
  Claim C1 at a concrete session. When \<^verbatim>\<open>sockA\<close> disconnects from the game it plays
  against \<^verbatim>\<open>sockB\<close>, the handler notifies \<^verbatim>\<open>sockB\<close> and ends the game, but the leaderboard
  stays as it was: no win for \<^verbatim>\<open>sockB\<close>, no loss for \<^verbatim>\<open>sockA\<close>. The \<^verbatim>\<open>leave_game\<close> handler
  on the same session records both.
\<close>

theorem disconnect_issues_no_forfeit:
  "snd (on_disconnect st_playing ''sockA'') = [(''sockB'', OpponentLeft ''Opponent disconnected'')]
   \<and> map_option game_status (games (fst (on_disconnect st_playing ''sockA'')) ''g1'') = Some Ended
   \<and> leaderboard (fst (on_disconnect st_playing ''sockA'')) = leaderboard st_playing
   \<and> map_option wins (map_of (leaderboard (fst (on_disconnect st_playing ''sockA''))) ''sockB'')
       = Some 0
   \<and> map_option losses (map_of (leaderboard (fst (on_disconnect st_playing ''sockA''))) ''sockA'')
       = Some 0
   \<and> map_option wins (map_of (leaderboard (fst (on_leave_game st_playing ''sockA''))) ''sockB'')
       = Some 1
   \<and> map_option losses (map_of (leaderboard (fst (on_leave_game st_playing ''sockA''))) ''sockA'')
       = Some 1"
  by (simp add: eval_leave)

text \<open>
  Claim C6 at a concrete session. After \<^verbatim>\<open>sockA\<close> has left the game, the game is ended
  and a move on it is refused; but when \<^verbatim>\<open>sockB\<close> leaves the ended game too, the handler
  records a second forfeit from the same game: a win for \<^verbatim>\<open>sockA\<close> and a loss for \<^verbatim>\<open>sockB\<close>.
\<close>

theorem leave_after_end_forfeits_again:
  "map_option game_status (games (fst (on_leave_game st_playing ''sockA'')) ''g1'') = Some Ended
   \<and> leaderboard (fst (on_leave_game st_playing ''sockA'')) =
       [(''sockA'', \<lparr>entry_odId = ''sockA'', entry_name = JStr ''ann'', wins = 0, losses = 1,
                      entry_score = 0\<rparr>),
        (''sockB'', \<lparr>entry_odId = ''sockB'', entry_name = JStr ''bob'', wins = 1, losses = 0,
                      entry_score = 10\<rparr>)]
   \<and> on_move (fst (on_leave_game st_playing ''sockA'')) ''sockB'' ''g1'' (JStr ''rock'') (0, 0, 0)
       = (fst (on_leave_game st_playing ''sockA''), [(''sockB'', ErrorMessage ''Invalid game state'')])
   \<and> snd (on_leave_game (fst (on_leave_game st_playing ''sockA'')) ''sockB'') =
       [(''sockA'', OpponentLeft ''Opponent left the game''), (''sockB'', LeftGame)]
   \<and> leaderboard (fst (on_leave_game (fst (on_leave_game st_playing ''sockA'')) ''sockB'')) =
       [(''sockA'', \<lparr>entry_odId = ''sockA'', entry_name = JStr ''ann'', wins = 1, losses = 1,
                      entry_score = 10\<rparr>),
        (''sockB'', \<lparr>entry_odId = ''sockB'', entry_name = JStr ''bob'', wins = 1, losses = 1,
                      entry_score = 10\<rparr>)]"
  by (simp add: eval_leave on_move_def)

subsection \<open>Joining a queue\<close>

lemma on_join_queue_unknown_type:
  assumes "players st sid = Some p" and "gameType \<noteq> ''dice''" and "gameType \<noteq> ''rps''"
  shows "on_join_queue st sid gameType gid = Inl TypeError"
  using assms by (simp add: on_join_queue_def queue_of_def)

text \<open>
  Claim C4 at a concrete input. A registered connection that asks for the queue of the
  game type \<^verbatim>\<open>chess\<close> gets no message: the handler throws a \<^verbatim>\<open>TypeError\<close>.
\<close>

theorem join_queue_unknown_type_throws:
  "on_join_queue st_registered ''sockA'' ''chess'' ''g0'' = Inl TypeError"
  by (simp add: on_join_queue_def queue_of_def st_registered_eq)

subsection \<open>Who sees which move\<close>

text \<open>
  Claim C5 at a concrete round. Side 1 has rock pending and side 2 submits scissors.
  The caller \<^verbatim>\<open>sockB\<close> is told that its own move was rock, the opponent's scissors, and
  that it won; \<^verbatim>\<open>sockA\<close> is told that its own move was scissors and the opponent's rock.
  Side 1 won the round: the scores and the result sent to \<^verbatim>\<open>sockA\<close> say so.
\<close>

theorem round_result_shows_side1_view:
  "on_move st_rock_pending ''sockB'' ''g1'' (JStr ''scissors'') (0, 0, 0) =
     (fst (on_move st_rock_pending ''sockB'' ''g1'' (JStr ''scissors'') (0, 0, 0)),
      [(''sockB'', RoundResult
          \<lparr>rr_round = 1, yourMove = JStr ''rock'', opponentMove = JStr ''scissors'',
           rr_result = Some Win, scores_you = 0, scores_opponent = 15\<rparr>),
       (''sockA'', RoundResult
          \<lparr>rr_round = 1, yourMove = JStr ''scissors'', opponentMove = JStr ''rock'',
           rr_result = Some Win, scores_you = 15, scores_opponent = 0\<rparr>)])"
  by (simp add: eval_move)

subsection \<open>A move from outside the game\<close>

lemma st_three_lookup:
  "games st_three ''g1'' = Some game_g1"
  "players st_three ''sockA'' =
     Some \<lparr>player_odId = ''sockA'', player_name = JStr ''ann'', currentGame = Some ''g1''\<rparr>"
  "players st_three ''sockC'' =
     Some \<lparr>player_odId = ''sockC'', player_name = JStr ''eve'', currentGame = None\<rparr>"
  "leaderboard st_three =
     [(''sockA'', \<lparr>entry_odId = ''sockA'', entry_name = JStr ''ann'', wins = 0, losses = 0,
                    entry_score = 0\<rparr>),
      (''sockB'', \<lparr>entry_odId = ''sockB'', entry_name = JStr ''bob'', wins = 0, losses = 0,
                    entry_score = 0\<rparr>),
      (''sockC'', \<lparr>entry_odId = ''sockC'', entry_name = JStr ''eve'', wins = 0, losses = 0,
                    entry_score = 0\<rparr>)]"
  by (simp_all add: st_three_def on_register_def st_playing_eq game_g1_eq Let_def)

text \<open>
  Claim C2 at a concrete input. The registered connection \<^verbatim>\<open>sockC\<close> is on neither side
  of the game \<^verbatim>\<open>g1\<close>. Its move is not refused: it is recorded as the pending move of side
  2, and the caller and side 1 are told to wait. When side 1 has rock pending, the
  outsider's paper resolves the round: side 2 gains 15 and the round counter advances.
\<close>

theorem outsider_move_is_recorded:
  "odId (player1 game_g1) \<noteq> ''sockC'' \<and> odId (player2 game_g1) \<noteq> ''sockC''
   \<and> snd (on_move st_three ''sockC'' ''g1'' (JStr ''paper'') (0, 0, 0))
       = [(''sockC'', Waiting), (''sockA'', OpponentMoved)]
   \<and> map_option (\<lambda>g. move (player2 g))
        (games (fst (on_move st_three ''sockC'' ''g1'' (JStr ''paper'') (0, 0, 0))) ''g1'')
       = Some (JStr ''paper'')
   \<and> snd (on_move (fst (on_move st_three ''sockA'' ''g1'' (JStr ''rock'') (0, 0, 0)))
             ''sockC'' ''g1'' (JStr ''paper'') (0, 0, 0))
       = [(''sockC'', RoundResult
             \<lparr>rr_round = 1, yourMove = JStr ''rock'', opponentMove = JStr ''paper'',
              rr_result = Some Lose, scores_you = 15, scores_opponent = 0\<rparr>),
          (''sockA'', RoundResult
             \<lparr>rr_round = 1, yourMove = JStr ''paper'', opponentMove = JStr ''rock'',
              rr_result = Some Lose, scores_you = 0, scores_opponent = 15\<rparr>)]
   \<and> map_option (\<lambda>g. (score (player1 g), score (player2 g), game_round g))
        (games (fst (on_move (fst (on_move st_three ''sockA'' ''g1'' (JStr ''rock'') (0, 0, 0)))
                       ''sockC'' ''g1'' (JStr ''paper'') (0, 0, 0))) ''g1'')
       = Some (0, 15, 2)"
  by (simp add: on_move_def st_three_lookup game_g1_eq record_moves_def
      set_currentPlayer_move_def opponent_def currentPlayer_def processRound_def getRPSResult_def
      updateLeaderboard_def Let_def)

end
